theory Spec2Isabelle
  imports Main "HOL-Library.Word" "HOL-Library.AList"
begin

section \<open>Strings and formatting\<close>

text \<open>
  Go strings are byte sequences; they are modelled as \<open>string\<close> (a list of bytes).
  An \<open>error\<close> value is modelled by its message.
\<close>

type_synonym error = string

text \<open>\<open>strings.HasPrefix\<close> and \<open>strings.Contains\<close>.\<close>

fun HasPrefix :: "string \<Rightarrow> string \<Rightarrow> bool" where
  "HasPrefix s [] = True"
| "HasPrefix [] (p # ps) = False"
| "HasPrefix (c # cs) (p # ps) = (c = p \<and> HasPrefix cs ps)"

fun Contains :: "string \<Rightarrow> string \<Rightarrow> bool" where
  "Contains [] substr = (substr = [])"
| "Contains (c # cs) substr = (HasPrefix (c # cs) substr \<or> Contains cs substr)"

text \<open>\<open>strings.TrimRight(s, cutset)\<close>: all trailing bytes contained in the cutset removed.\<close>

definition TrimRight :: "string \<Rightarrow> string \<Rightarrow> string" where
  "TrimRight s cutset = rev (dropWhile (\<lambda>c. c \<in> set cutset) (rev s))"

text \<open>Decimal formatting, as \<open>strconv.Itoa\<close> and the verb \<open>%d\<close> of \<open>fmt\<close> produce it.\<close>

definition digit :: "nat \<Rightarrow> char" where
  "digit d = (if d = 0 then CHR ''0'' else if d = 1 then CHR ''1'' else if d = 2 then CHR ''2''
     else if d = 3 then CHR ''3'' else if d = 4 then CHR ''4'' else if d = 5 then CHR ''5''
     else if d = 6 then CHR ''6'' else if d = 7 then CHR ''7'' else if d = 8 then CHR ''8''
     else CHR ''9'')"

fun FormatUint :: "nat \<Rightarrow> string" where
  "FormatUint n = (if n < 10 then [digit n] else FormatUint (n div 10) @ [digit (n mod 10)])"

declare FormatUint.simps [simp del]

definition Itoa :: "int \<Rightarrow> string" where
  "Itoa i = (if i < 0 then CHR ''-'' # FormatUint (nat (- i)) else FormatUint (nat i))"

section \<open>Data model\<close>

text \<open>An \<open>int64\<close> is a 64-bit word: its sum, negation and product wrap around, and
  \<open>sint\<close> reads its signed value.\<close>

type_synonym int64 = "64 word"

text \<open>
  An instant is an integer, the nanoseconds on the time line. A \<open>time.Duration\<close> is an
  \<open>int64\<close> count of nanoseconds, so \<open>-d\<close> and \<open>n * time.Hour\<close> wrap around: the negation
  of the least \<open>int64\<close> is itself. \<open>t.Add(d)\<close> moves the instant by the signed value of \<open>d\<close>
  (a \<open>time.Time\<close> counts the seconds in an \<open>int64\<close> and the nanoseconds apart, so the sum
  itself does not wrap).
\<close>

type_synonym time = int



text \<open>A \<open>float64\<close> is only ever passed through; it is kept as its 64-bit pattern.\<close>

type_synonym float64 = "64 word"

text \<open>Values of Go's \<open>interface{}\<close> as they occur in JSON payloads (\<open>gin.H\<close>,
  \<open>map[string]interface{}\<close>, \<open>[]interface{}\<close>).\<close>

datatype json =
    JNull
  | JBool bool
  | JInt int
  | JFloat float64
  | JString string
  | JArray "json list"
  | JObject "(string \<times> json) list"

text \<open>\<open>net/url.URL\<close>, field by field.\<close>

record URL =
  Scheme :: string
  Opaque :: string
  User :: "string option"
  Host :: string
  Path :: string
  RawPath :: string
  OmitHost :: bool
  ForceQuery :: bool
  RawQuery :: string
  Fragment :: string
  RawFragment :: string

text \<open>An outgoing \<open>http.Request\<close>: the method, the URL string it was created from, the header
  and the body. \<open>Header.Set\<close> replaces the value stored under a key; the keys are kept as
  the code writes them.\<close>

type_synonym Header = "(string \<times> string) list"

record Request =
  Method :: string
  RequestURL :: string
  Headers :: Header
  RequestBody :: string

definition Header_Set :: "Request \<Rightarrow> string \<Rightarrow> string \<Rightarrow> Request" where
  "Header_Set req k v = req\<lparr>Headers := AList.update k v (Headers req)\<rparr>"

definition Header_Get :: "Request \<Rightarrow> string \<Rightarrow> string" where
  "Header_Get req k = (case map_of (Headers req) k of None \<Rightarrow> [] | Some v \<Rightarrow> v)"

text \<open>An \<open>http.Response\<close>: the status code and what \<open>io.ReadAll(resp.Body)\<close> yields, the
  error or the bytes (a read that fails is taken to have read nothing).\<close>

record Response =
  StatusCode :: int
  Body :: "error + string"

text \<open>Modelled from the spec: the structs of \<open>internal/models\<close> (\<open>Group\<close>, \<open>APIKey\<close>,
  \<open>HeaderRule\<close>, \<open>ModelCapabilities\<close>) are not part of the sources; the fields are those of
  section 3 of the specification that the code under verification reads or writes. Fields of
  different structs that share a name carry the struct as a prefix.\<close>

record HeaderRule =
  Key :: string
  RuleValue :: string
  Action :: string

record UpstreamInfo =
  upstream_URL :: string
  Weight :: int

record Group =
  group_ID :: nat
  group_Name :: string
  ChannelType :: string
  group_Upstreams :: "UpstreamInfo list"
  HeaderRuleList :: "HeaderRule list"

datatype KeyStatus = KeyStatusActive | KeyStatusInvalid

record APIKey =
  key_ID :: nat
  key_GroupID :: nat
  KeyValue :: string
  Status :: KeyStatus

record ModelCapabilities =
  ID :: nat
  GroupID :: nat
  ModelID :: string
  ModelName :: string
  SupportsStreaming :: bool
  SupportsVision :: bool
  SupportsFunctions :: bool
  MaxTokens :: "int option"
  MaxInputTokens :: "int option"
  MaxOutputTokens :: "int option"
  CustomCapabilities :: "(string \<times> json) list"
  IsAutoFetched :: bool
  LastFetchedAt :: "time option"

text \<open>The zero value \<open>models.ModelCapabilities{}\<close>.\<close>

definition ModelCapabilities_zero :: ModelCapabilities where
  "ModelCapabilities_zero =
     \<lparr>ID = 0, GroupID = 0, ModelID = [], ModelName = [], SupportsStreaming = False,
      SupportsVision = False, SupportsFunctions = False, MaxTokens = None,
      MaxInputTokens = None, MaxOutputTokens = None, CustomCapabilities = [],
      IsAutoFetched = False, LastFetchedAt = None\<rparr>"

section \<open>Environment: libraries and helpers outside the sources\<close>

text \<open>The decoding targets: \<open>streamPayload\<close> of \<open>IsStreamRequest\<close>, and the entries of a
  provider's model catalogue, \<open>data[]\<close> of the decoded response.\<close>

record streamPayload =
  Stream :: bool

record CatalogEntry =
  entry_ID :: string
  entry_Kind :: string
  entry_Owner :: string

text \<open>
  The standard-library calls the code makes (\<open>net/url\<close>, \<open>encoding/json\<close>) and the helpers
  of this repository that are not part of the sources (\<open>app_errors.ParseUpstreamError\<close>,
  \<open>utils.ApplyHeaderRules\<close>) are parameters of the model, collected in one record.
  A decoder yields \<open>Inl\<close> of the error or \<open>Inr\<close> of the decoded value.
\<close>

record Env =
  url_Parse :: "string \<Rightarrow> error + URL"
  URL_String :: "URL \<Rightarrow> string"
  json_Marshal :: "json \<Rightarrow> error + string"
  Unmarshal_stream :: "string \<Rightarrow> error + streamPayload"
  Unmarshal_catalog :: "string \<Rightarrow> error + CatalogEntry list"
  Unmarshal_object :: "string \<Rightarrow> error + (string \<times> json) list"
  ParseUpstreamError :: "string \<Rightarrow> string"
  ApplyHeaderRules :: "Header \<Rightarrow> HeaderRule list \<Rightarrow> Group \<times> APIKey \<Rightarrow> Header"

text \<open>\<open>http.NewRequestWithContext\<close>: the request carries the method, the URL and the body it
  is given and an empty header; it fails when the URL does not parse.\<close>

definition NewRequest :: "Env \<Rightarrow> string \<Rightarrow> string \<Rightarrow> string \<Rightarrow> error + Request" where
  "NewRequest E method u body =
     (case url_Parse E u of
        Inl e \<Rightarrow> Inl e
      | Inr _ \<Rightarrow> Inr \<lparr>Method = method, RequestURL = u, Headers = [], RequestBody = body\<rparr>)"

section \<open>Channels (\<open>internal/channel\<close>)\<close>

text \<open>The \<open>BaseChannel\<close> a channel embeds; \<open>HTTPClient\<close> is the client's \<open>Do\<close>,
  which yields the transport error or the response.\<close>

record BaseChannel =
  Name :: string
  Upstreams :: "URL list"
  TestModel :: string
  ValidationEndpoint :: string
  HTTPClient :: "Request \<Rightarrow> error + Response"

text \<open>Modelled from the spec: \<open>getUpstreamURL\<close> is not part of the sources; it "returns the
  first entry of the upstreams parsed as a URL" and \<open>nil\<close> when there is none.\<close>

definition getUpstreamURL :: "BaseChannel \<Rightarrow> URL option" where
  "getUpstreamURL ch = (case Upstreams ch of [] \<Rightarrow> None | u # _ \<Rightarrow> Some u)"

text \<open>The header rules are applied only when the group has some.\<close>

definition apply_group_rules :: "Env \<Rightarrow> Group \<Rightarrow> APIKey \<Rightarrow> Request \<Rightarrow> Request" where
  "apply_group_rules E grp apiKey req =
     (if length (HeaderRuleList grp) > 0
      then req\<lparr>Headers := ApplyHeaderRules E (Headers req) (HeaderRuleList grp) (grp, apiKey)\<rparr>
      else req)"

subsection \<open>\<open>OpenAIChannel.FetchModels\<close>\<close>

text \<open>The body of the loop over \<open>response.Data\<close>: one capability row per catalogue entry.\<close>

definition OpenAI_capability :: "Group \<Rightarrow> time \<Rightarrow> CatalogEntry \<Rightarrow> ModelCapabilities" where
  "OpenAI_capability grp now model =
     (let capability = ModelCapabilities_zero
            \<lparr>GroupID := group_ID grp, ModelID := entry_ID model, ModelName := entry_ID model,
             SupportsStreaming := True, IsAutoFetched := True, LastFetchedAt := Some now\<rparr>
      in if Contains (entry_ID model) ''gpt-4'' \<or> Contains (entry_ID model) ''gpt-3.5''
         then (let capability = capability\<lparr>SupportsFunctions := True\<rparr>
               in if Contains (entry_ID model) ''vision''
                  then capability\<lparr>SupportsVision := True\<rparr>
                  else capability)
         else capability)"

definition OpenAI_FetchModels ::
  "Env \<Rightarrow> time \<Rightarrow> BaseChannel \<Rightarrow> APIKey \<Rightarrow> Group \<Rightarrow> error + ModelCapabilities list" where
  "OpenAI_FetchModels E now ch apiKey grp =
     (case getUpstreamURL ch of
        None \<Rightarrow> Inl (''no upstream URL configured for channel '' @ Name ch)
      | Some upstreamURL \<Rightarrow>
          let finalURL = upstreamURL\<lparr>Path := TrimRight (Path upstreamURL) ''/'' @ ''/v1/models''\<rparr>;
              reqURL = URL_String E finalURL
          in case NewRequest E ''GET'' reqURL [] of
               Inl e \<Rightarrow> Inl (''failed to create models request: '' @ e)
             | Inr req0 \<Rightarrow>
                 let req1 = Header_Set req0 ''Authorization'' (''Bearer '' @ KeyValue apiKey);
                     req2 = Header_Set req1 ''Content-Type'' ''application/json'';
                     req = apply_group_rules E grp apiKey req2
                 in case HTTPClient ch req of
                      Inl e \<Rightarrow> Inl (''failed to send models request: '' @ e)
                    | Inr resp \<Rightarrow>
                        if StatusCode resp \<noteq> 200
                        then (let errorBody = (case Body resp of Inl _ \<Rightarrow> [] | Inr b \<Rightarrow> b)
                              in Inl (''failed to fetch models [status '' @ Itoa (StatusCode resp)
                                        @ '']: '' @ ParseUpstreamError E errorBody))
                        else (case Body resp of
                                Inl e \<Rightarrow> Inl (''failed to read models response: '' @ e)
                              | Inr bodyBytes \<Rightarrow>
                                  (case Unmarshal_catalog E bodyBytes of
                                     Inl e \<Rightarrow> Inl (''failed to parse models response: '' @ e)
                                   | Inr dat \<Rightarrow> Inr (map (OpenAI_capability grp now) dat))))"

subsection \<open>\<open>IsStreamRequest\<close>\<close>

text \<open>What the handlers read of a \<open>gin.Context\<close>: the request header and the query
  parameters. \<open>GetHeader\<close> and \<open>Query\<close> yield the empty string for an absent key.\<close>

record GinContext =
  RequestHeader :: "(string \<times> string) list"
  QueryParams :: "(string \<times> string) list"

definition GetHeader :: "GinContext \<Rightarrow> string \<Rightarrow> string" where
  "GetHeader c k = (case map_of (RequestHeader c) k of None \<Rightarrow> [] | Some v \<Rightarrow> v)"

definition Query :: "GinContext \<Rightarrow> string \<Rightarrow> string" where
  "Query c k = (case map_of (QueryParams c) k of None \<Rightarrow> [] | Some v \<Rightarrow> v)"

definition OpenAI_IsStreamRequest :: "Env \<Rightarrow> GinContext \<Rightarrow> string \<Rightarrow> bool" where
  "OpenAI_IsStreamRequest E c bodyBytes =
     (if Contains (GetHeader c ''Accept'') ''text/event-stream'' then True
      else if Query c ''stream'' = ''true'' then True
      else (case Unmarshal_stream E bodyBytes of
              Inr p \<Rightarrow> Stream p
            | Inl err \<Rightarrow> False))"

definition Anthropic_IsStreamRequest :: "Env \<Rightarrow> GinContext \<Rightarrow> string \<Rightarrow> bool" where
  "Anthropic_IsStreamRequest E c bodyBytes =
     (if Contains (GetHeader c ''Accept'') ''text/event-stream'' then True
      else if Query c ''stream'' = ''true'' then True
      else (case Unmarshal_stream E bodyBytes of
              Inr p \<Rightarrow> Stream p
            | Inl err \<Rightarrow> False))"

subsection \<open>\<open>ValidateKey\<close>\<close>

text \<open>
  \<open>ValidateKey\<close> yields the pair \<open>(valid, err)\<close>. It is written in two parts that meet at
  \<open>ch.HTTPClient.Do(req)\<close>: the probe is everything before the call (an early return is
  \<open>Inl\<close>, the request to send is \<open>Inr\<close>), and \<open>ValidateKey\<close> sends the probe and reads
  the response.
\<close>

definition OpenAI_probe ::
  "Env \<Rightarrow> BaseChannel \<Rightarrow> APIKey \<Rightarrow> Group \<Rightarrow> (bool \<times> error option) + Request" where
  "OpenAI_probe E ch apiKey grp =
     (case getUpstreamURL ch of
        None \<Rightarrow> Inl (False, Some (''no upstream URL configured for channel '' @ Name ch))
      | Some upstreamURL \<Rightarrow>
          (case url_Parse E (ValidationEndpoint ch) of
             Inl e \<Rightarrow> Inl (False, Some (''failed to parse validation endpoint: '' @ e))
           | Inr endpointURL \<Rightarrow>
               let finalURL = upstreamURL
                     \<lparr>Path := TrimRight (Path upstreamURL) ''/'' @ Path endpointURL,
                      RawQuery := RawQuery endpointURL\<rparr>;
                   reqURL = URL_String E finalURL;
                   payload = JObject
                     [(''model'', JString (TestModel ch)),
                      (''messages'', JArray [JObject [(''role'', JString ''user''),
                                                      (''content'', JString ''hi'')]])]
               in case json_Marshal E payload of
                    Inl e \<Rightarrow> Inl (False, Some (''failed to marshal validation payload: '' @ e))
                  | Inr body \<Rightarrow>
                      (case NewRequest E ''POST'' reqURL body of
                         Inl e \<Rightarrow> Inl (False, Some (''failed to create validation request: '' @ e))
                       | Inr req0 \<Rightarrow>
                           let req1 = Header_Set req0 ''Authorization'' (''Bearer '' @ KeyValue apiKey);
                               req2 = Header_Set req1 ''Content-Type'' ''application/json''
                           in Inr (apply_group_rules E grp apiKey req2))))"

text \<open>The part after the call, shared by the two channels word for word.\<close>

definition validation_result :: "Env \<Rightarrow> error + Response \<Rightarrow> bool \<times> error option" where
  "validation_result E sent =
     (case sent of
        Inl e \<Rightarrow> (False, Some (''failed to send validation request: '' @ e))
      | Inr resp \<Rightarrow>
          if StatusCode resp \<ge> 200 \<and> StatusCode resp < 300 then (True, None)
          else (case Body resp of
                  Inl e \<Rightarrow> (False, Some (''key is invalid (status '' @ Itoa (StatusCode resp)
                                           @ ''), but failed to read error body: '' @ e))
                | Inr errorBody \<Rightarrow>
                    (False, Some (''[status '' @ Itoa (StatusCode resp) @ ''] ''
                                  @ ParseUpstreamError E errorBody))))"

definition OpenAI_ValidateKey ::
  "Env \<Rightarrow> BaseChannel \<Rightarrow> APIKey \<Rightarrow> Group \<Rightarrow> bool \<times> error option" where
  "OpenAI_ValidateKey E ch apiKey grp =
     (case OpenAI_probe E ch apiKey grp of
        Inl early \<Rightarrow> early
      | Inr req \<Rightarrow> validation_result E (HTTPClient ch req))"

definition Anthropic_probe ::
  "Env \<Rightarrow> BaseChannel \<Rightarrow> APIKey \<Rightarrow> Group \<Rightarrow> (bool \<times> error option) + Request" where
  "Anthropic_probe E ch apiKey grp =
     (case getUpstreamURL ch of
        None \<Rightarrow> Inl (False, Some (''no upstream URL configured for channel '' @ Name ch))
      | Some upstreamURL \<Rightarrow>
          (case url_Parse E (ValidationEndpoint ch) of
             Inl e \<Rightarrow> Inl (False, Some (''failed to parse validation endpoint: '' @ e))
           | Inr endpointURL \<Rightarrow>
               let finalURL = upstreamURL
                     \<lparr>Path := TrimRight (Path upstreamURL) ''/'' @ Path endpointURL,
                      RawQuery := RawQuery endpointURL\<rparr>;
                   reqURL = URL_String E finalURL;
                   payload = JObject
                     [(''model'', JString (TestModel ch)),
                      (''max_tokens'', JInt 100),
                      (''messages'', JArray [JObject [(''role'', JString ''user''),
                                                      (''content'', JString ''hi'')]])]
               in case json_Marshal E payload of
                    Inl e \<Rightarrow> Inl (False, Some (''failed to marshal validation payload: '' @ e))
                  | Inr body \<Rightarrow>
                      (case NewRequest E ''POST'' reqURL body of
                         Inl e \<Rightarrow> Inl (False, Some (''failed to create validation request: '' @ e))
                       | Inr req0 \<Rightarrow>
                           let req1 = Header_Set req0 ''x-api-key'' (KeyValue apiKey);
                               req2 = Header_Set req1 ''anthropic-version'' ''2023-06-01'';
                               req3 = Header_Set req2 ''Content-Type'' ''application/json''
                           in Inr (apply_group_rules E grp apiKey req3))))"

definition Anthropic_ValidateKey ::
  "Env \<Rightarrow> BaseChannel \<Rightarrow> APIKey \<Rightarrow> Group \<Rightarrow> bool \<times> error option" where
  "Anthropic_ValidateKey E ch apiKey grp =
     (case Anthropic_probe E ch apiKey grp of
        Inl early \<Rightarrow> early
      | Inr req \<Rightarrow> validation_result E (HTTPClient ch req))"

section \<open>The model service (\<open>internal/services\<close>)\<close>

text \<open>
  The state the service works on: the rows of the table \<open>model_capabilities\<close>, the schedule
  of database faults still to come (each statement takes the next entry; \<open>True\<close> makes the
  statement fail) and the number of calls made to a provider's \<open>FetchModels\<close>.
\<close>

record State =
  rows :: "ModelCapabilities list"
  faults :: "bool list"
  provider_calls :: nat

definition ErrRecordNotFound :: error where
  "ErrRecordNotFound = ''record not found''"

definition ErrDatabase :: error where
  "ErrDatabase = ''database error''"

definition db_step :: "State \<Rightarrow> bool \<times> State" where
  "db_step st = (case faults st of [] \<Rightarrow> (False, st) | f # fs \<Rightarrow> (f, st\<lparr>faults := fs\<rparr>))"

text \<open>\<open>Where(...).First(&existing)\<close>: the matching row with the least primary key.\<close>

fun least_ID :: "ModelCapabilities \<Rightarrow> ModelCapabilities list \<Rightarrow> ModelCapabilities" where
  "least_ID m [] = m"
| "least_ID m (r # rs) = least_ID (if ID r < ID m then r else m) rs"

definition First ::
  "(ModelCapabilities \<Rightarrow> bool) \<Rightarrow> State \<Rightarrow> (error + ModelCapabilities) \<times> State" where
  "First cond st =
     (let (failed, st1) = db_step st
      in if failed then (Inl ErrDatabase, st1)
         else (case filter cond (rows st1) of
                 [] \<Rightarrow> (Inl ErrRecordNotFound, st1)
               | r # rs \<Rightarrow> (Inr (least_ID r rs), st1)))"

text \<open>\<open>Create(&capability)\<close>: a zero primary key is assigned by the table (the next one
  after those in use); a primary key already in use is refused.\<close>

definition next_ID :: "ModelCapabilities list \<Rightarrow> nat" where
  "next_ID rs = Suc (fold max (map ID rs) 0)"

definition Create :: "ModelCapabilities \<Rightarrow> State \<Rightarrow> error option \<times> State" where
  "Create capability st =
     (let (failed, st1) = db_step st
      in if failed then (Some ErrDatabase, st1)
         else if ID capability = 0
         then (None, st1\<lparr>rows := rows st1 @ [capability\<lparr>ID := next_ID (rows st1)\<rparr>]\<rparr>)
         else if ID capability \<in> ID ` set (rows st1)
         then (Some ''UNIQUE constraint failed: model_capabilities.id'', st1)
         else (None, st1\<lparr>rows := rows st1 @ [capability]\<rparr>))"

text \<open>The map \<open>updates\<close> handed to \<open>Updates\<close>, column by column: \<open>None\<close> for a column the
  map does not hold, \<open>Some v\<close> for one it sets to \<open>v\<close>.\<close>

record ColumnUpdates =
  model_name :: "string option"
  supports_streaming :: "bool option"
  supports_vision :: "bool option"
  supports_functions :: "bool option"
  is_auto_fetched :: "bool option"
  last_fetched_at :: "time option option"
  max_tokens :: "int option"
  max_input_tokens :: "int option"
  max_output_tokens :: "int option"
  custom_capabilities :: "(string \<times> json) list option"

definition no_updates :: ColumnUpdates where
  "no_updates = \<lparr>model_name = None, supports_streaming = None, supports_vision = None,
     supports_functions = None, is_auto_fetched = None, last_fetched_at = None,
     max_tokens = None, max_input_tokens = None, max_output_tokens = None,
     custom_capabilities = None\<rparr>"

definition set_columns :: "ColumnUpdates \<Rightarrow> ModelCapabilities \<Rightarrow> ModelCapabilities" where
  "set_columns u r =
     r\<lparr>ModelName := (case model_name u of None \<Rightarrow> ModelName r | Some v \<Rightarrow> v),
       SupportsStreaming := (case supports_streaming u of None \<Rightarrow> SupportsStreaming r | Some v \<Rightarrow> v),
       SupportsVision := (case supports_vision u of None \<Rightarrow> SupportsVision r | Some v \<Rightarrow> v),
       SupportsFunctions := (case supports_functions u of None \<Rightarrow> SupportsFunctions r | Some v \<Rightarrow> v),
       IsAutoFetched := (case is_auto_fetched u of None \<Rightarrow> IsAutoFetched r | Some v \<Rightarrow> v),
       LastFetchedAt := (case last_fetched_at u of None \<Rightarrow> LastFetchedAt r | Some v \<Rightarrow> v),
       MaxTokens := (case max_tokens u of None \<Rightarrow> MaxTokens r | Some v \<Rightarrow> Some v),
       MaxInputTokens := (case max_input_tokens u of None \<Rightarrow> MaxInputTokens r | Some v \<Rightarrow> Some v),
       MaxOutputTokens := (case max_output_tokens u of None \<Rightarrow> MaxOutputTokens r | Some v \<Rightarrow> Some v),
       CustomCapabilities := (case custom_capabilities u of None \<Rightarrow> CustomCapabilities r | Some v \<Rightarrow> v)\<rparr>"

text \<open>\<open>Model(...).Where("id = ?", id).Updates(updates)\<close>: the columns are set in every row
  with that primary key.\<close>

definition Updates :: "nat \<Rightarrow> ColumnUpdates \<Rightarrow> State \<Rightarrow> error option \<times> State" where
  "Updates pk u st =
     (let (failed, st1) = db_step st
      in if failed then (Some ErrDatabase, st1)
         else (None, st1\<lparr>rows := map (\<lambda>r. if ID r = pk then set_columns u r else r) (rows st1)\<rparr>))"


text \<open>\<open>db.Transaction\<close>: the rows are those before the transaction when its body fails.\<close>

definition Transaction :: "(State \<Rightarrow> error option \<times> State) \<Rightarrow> State \<Rightarrow> error option \<times> State" where
  "Transaction body st =
     (case body st of
        (None, st') \<Rightarrow> (None, st')
      | (Some e, st') \<Rightarrow> (Some e, st'\<lparr>rows := rows st\<rparr>))"

text \<open>The interface \<open>ChannelProxy\<close>, by the one method the service calls, and the service
  itself: \<open>GetChannel\<close> of its channel factory.\<close>

record ChannelProxy =
  FetchModels :: "APIKey \<Rightarrow> Group \<Rightarrow> error + ModelCapabilities list"

record ModelService =
  GetChannel :: "Group \<Rightarrow> error + ChannelProxy"

subsection \<open>\<open>FetchAndStoreModels\<close>\<close>

text \<open>The map \<open>updates\<close> built for an existing record.\<close>

definition refresh_updates :: "ModelCapabilities \<Rightarrow> ColumnUpdates" where
  "refresh_updates capability =
     no_updates
       \<lparr>model_name := Some (ModelName capability),
        supports_streaming := Some (SupportsStreaming capability),
        supports_vision := Some (SupportsVision capability),
        supports_functions := Some (SupportsFunctions capability),
        is_auto_fetched := Some (IsAutoFetched capability),
        last_fetched_at := Some (LastFetchedAt capability),
        max_tokens := (if MaxTokens capability \<noteq> None then MaxTokens capability else None),
        max_input_tokens := (if MaxInputTokens capability \<noteq> None then MaxInputTokens capability else None),
        max_output_tokens := (if MaxOutputTokens capability \<noteq> None then MaxOutputTokens capability else None)\<rparr>"

text \<open>The body of the loop of the transaction, for one capability.\<close>

definition store_capability :: "ModelCapabilities \<Rightarrow> State \<Rightarrow> error option \<times> State" where
  "store_capability capability st =
     (case First (\<lambda>r. GroupID r = GroupID capability \<and> ModelID r = ModelID capability) st of
        (Inl e, st1) \<Rightarrow>
          if e = ErrRecordNotFound then Create capability st1
          else (Some e, st1)
      | (Inr existing, st1) \<Rightarrow> Updates (ID existing) (refresh_updates capability) st1)"

fun store_all :: "ModelCapabilities list \<Rightarrow> State \<Rightarrow> error option \<times> State" where
  "store_all [] st = (None, st)"
| "store_all (capability # capabilities) st =
     (case store_capability capability st of
        (Some e, st1) \<Rightarrow> (Some e, st1)
      | (None, st1) \<Rightarrow> store_all capabilities st1)"

definition FetchAndStoreModels ::
  "ModelService \<Rightarrow> Group \<Rightarrow> APIKey \<Rightarrow> State \<Rightarrow> error option \<times> State" where
  "FetchAndStoreModels s grp apiKey st =
     (case GetChannel s grp of
        Inl e \<Rightarrow> (Some (''failed to get channel: '' @ e), st)
      | Inr ch \<Rightarrow>
          let st1 = st\<lparr>provider_calls := Suc (provider_calls st)\<rparr>
          in case FetchModels ch apiKey grp of
               Inl e \<Rightarrow> (Some (''failed to fetch models: '' @ e), st1)
             | Inr capabilities \<Rightarrow>
                 if length capabilities = 0
                 then (Some ''no models returned from provider'', st1)
                 else Transaction (store_all capabilities) st1)"

subsection \<open>\<open>UpdateModelCapability\<close>\<close>

definition UpdateModelCapability :: "nat \<Rightarrow> ColumnUpdates \<Rightarrow> State \<Rightarrow> error option \<times> State" where
  "UpdateModelCapability pk u st = Updates pk u st"

subsection \<open>\<open>RefreshStaleModels\<close>\<close>



subsection \<open>The stale duration of the handler \<open>RefreshModels\<close>\<close>


subsection \<open>What a refresh may change\<close>

text \<open>
  The row \<open>r\<close> after an update from the fetched \<open>capability\<close>, as the specification words
  it: the name, the three \<open>supports\<close> flags, \<open>is_auto_fetched\<close> and \<open>last_fetched_at\<close>
  are the capability's, and so is each token limit that the capability has; nothing else
  changes.
\<close>

definition refreshed :: "ModelCapabilities \<Rightarrow> ModelCapabilities \<Rightarrow> ModelCapabilities" where
  "refreshed capability r =
     r\<lparr>ModelName := ModelName capability,
       SupportsStreaming := SupportsStreaming capability,
       SupportsVision := SupportsVision capability,
       SupportsFunctions := SupportsFunctions capability,
       IsAutoFetched := IsAutoFetched capability,
       LastFetchedAt := LastFetchedAt capability,
       MaxTokens := (case MaxTokens capability of None \<Rightarrow> MaxTokens r | Some v \<Rightarrow> Some v),
       MaxInputTokens := (case MaxInputTokens capability of None \<Rightarrow> MaxInputTokens r | Some v \<Rightarrow> Some v),
       MaxOutputTokens := (case MaxOutputTokens capability of None \<Rightarrow> MaxOutputTokens r | Some v \<Rightarrow> Some v)\<rparr>"

text \<open>A row keeps its identity and its custom capabilities; a table extends another when
  it keeps every row of it in place.\<close>

definition kept :: "ModelCapabilities \<Rightarrow> ModelCapabilities \<Rightarrow> bool" where
  "kept r r' \<longleftrightarrow>
     ID r' = ID r \<and> GroupID r' = GroupID r \<and> ModelID r' = ModelID r \<and>
     CustomCapabilities r' = CustomCapabilities r"

definition extends :: "ModelCapabilities list \<Rightarrow> ModelCapabilities list \<Rightarrow> bool" where
  "extends rs rs' \<longleftrightarrow> length rs \<le> length rs' \<and> (\<forall>i < length rs. kept (rs ! i) (rs' ! i))"

section \<open>Metrics (\<open>internal/prometheus\<close>)\<close>

text \<open>
  A collector is known to the registry of the Prometheus client by its descriptor: the fully
  qualified name, the help string and the label names. Each of the collectors of the package
  has one descriptor.
\<close>

record Desc =
  fqName :: string
  helpText :: string
  variableLabels :: "string list"

definition httpRequestsTotal_desc :: Desc where
  "httpRequestsTotal_desc = \<lparr>fqName = ''http_requests_total'',
     helpText = ''Total number of HTTP requests'',
     variableLabels = [''method'', ''endpoint'', ''status'']\<rparr>"

definition httpRequestDuration_desc :: Desc where
  "httpRequestDuration_desc = \<lparr>fqName = ''http_request_duration_seconds'',
     helpText = ''HTTP request duration in seconds'',
     variableLabels = [''method'', ''endpoint'', ''status'']\<rparr>"

definition httpRequestSize_desc :: Desc where
  "httpRequestSize_desc = \<lparr>fqName = ''http_request_size_bytes'',
     helpText = ''HTTP request size in bytes'',
     variableLabels = [''method'', ''endpoint'']\<rparr>"

definition httpResponseSize_desc :: Desc where
  "httpResponseSize_desc = \<lparr>fqName = ''http_response_size_bytes'',
     helpText = ''HTTP response size in bytes'',
     variableLabels = [''method'', ''endpoint'']\<rparr>"

definition activeKeysTotal_desc :: Desc where
  "activeKeysTotal_desc = \<lparr>fqName = ''gpt_load_active_keys_total'',
     helpText = ''Total number of active API keys per group'',
     variableLabels = [''group'']\<rparr>"

definition invalidKeysTotal_desc :: Desc where
  "invalidKeysTotal_desc = \<lparr>fqName = ''gpt_load_invalid_keys_total'',
     helpText = ''Total number of invalid API keys per group'',
     variableLabels = [''group'']\<rparr>"

definition proxyRequestsTotal_desc :: Desc where
  "proxyRequestsTotal_desc = \<lparr>fqName = ''gpt_load_proxy_requests_total'',
     helpText = ''Total number of proxy requests per group'',
     variableLabels = [''group'', ''status'']\<rparr>"

definition proxyRequestDuration_desc :: Desc where
  "proxyRequestDuration_desc = \<lparr>fqName = ''gpt_load_proxy_request_duration_seconds'',
     helpText = ''Proxy request duration in seconds'',
     variableLabels = [''group'']\<rparr>"

definition keyRotationsTotal_desc :: Desc where
  "keyRotationsTotal_desc = \<lparr>fqName = ''gpt_load_key_rotations_total'',
     helpText = ''Total number of key rotations per group'',
     variableLabels = [''group'']\<rparr>"

definition keyValidationTotal_desc :: Desc where
  "keyValidationTotal_desc = \<lparr>fqName = ''gpt_load_key_validation_total'',
     helpText = ''Total number of key validations'',
     variableLabels = [''group'', ''result'']\<rparr>"

text \<open>
  \<open>prometheus.Register\<close> on the registry, the list of the descriptors registered so far:
  a descriptor whose name is registered with another help string or other label names is
  refused; one that is registered already yields \<open>AlreadyRegisteredError\<close>; any other is
  added. (The ten descriptors above are well formed, so the check of the descriptor itself is
  left out.)
\<close>

datatype RegisterError = AlreadyRegisteredError | InconsistentError string

definition Register :: "Desc \<Rightarrow> Desc list \<Rightarrow> RegisterError + Desc list" where
  "Register c registry =
     (if \<exists>d \<in> set registry. fqName d = fqName c \<and>
            (helpText d \<noteq> helpText c \<or> variableLabels d \<noteq> variableLabels c)
      then Inl (InconsistentError (''a previously registered descriptor with the same ''
             @ ''fully-qualified name as '' @ fqName c
             @ '' has different label names or a different help string''))
      else if \<exists>d \<in> set registry. fqName d = fqName c
      then Inl AlreadyRegisteredError
      else Inr (registry @ [c]))"

definition metrics :: "Desc list" where
  "metrics =
     [httpRequestsTotal_desc, httpRequestDuration_desc, httpRequestSize_desc,
      httpResponseSize_desc, activeKeysTotal_desc, invalidKeysTotal_desc,
      proxyRequestsTotal_desc, proxyRequestDuration_desc, keyRotationsTotal_desc,
      keyValidationTotal_desc]"

text \<open>\<open>Init\<close>: the loop over \<open>metrics\<close>, and the function. The result is the error
  returned, if any, and the registry.\<close>

fun register_each :: "Desc list \<Rightarrow> Desc list \<Rightarrow> error option \<times> Desc list" where
  "register_each [] registry = (None, registry)"
| "register_each (metric # rest) registry =
     (case Register metric registry of
        Inl AlreadyRegisteredError \<Rightarrow> register_each rest registry
      | Inl (InconsistentError e) \<Rightarrow>
          (Some (''failed to register Prometheus metric: '' @ e), registry)
      | Inr registry' \<Rightarrow> register_each rest registry')"

definition Init :: "Desc list \<Rightarrow> error option \<times> Desc list" where
  "Init registry = register_each metrics registry"

text \<open>The earlier revision of the file, kept in the same source file after the current
  one: \<open>Init\<close> calls \<open>prometheus.MustRegister\<close>, which panics on the first error of
  \<open>Register\<close> (\<open>Inl\<close> is the panic).\<close>

fun MustRegister :: "Desc list \<Rightarrow> Desc list \<Rightarrow> RegisterError + Desc list" where
  "MustRegister [] registry = Inr registry"
| "MustRegister (c # cs) registry =
     (case Register c registry of
        Inl e \<Rightarrow> Inl e
      | Inr registry' \<Rightarrow> MustRegister cs registry')"

definition Init_MustRegister :: "Desc list \<Rightarrow> RegisterError + Desc list" where
  "Init_MustRegister registry = MustRegister metrics registry"

text \<open>A descriptor is known to a registry that holds its name, and holds it only with the
  same help string and label names.\<close>

definition known :: "Desc \<Rightarrow> Desc list \<Rightarrow> bool" where
  "known c registry \<longleftrightarrow>
     (\<exists>d \<in> set registry. fqName d = fqName c) \<and>
     (\<forall>d \<in> set registry. fqName d = fqName c \<longrightarrow>
        helpText d = helpText c \<and> variableLabels d = variableLabels c)"

subsection \<open>\<open>RecordHTTPRequest\<close>\<close>

text \<open>
  The collectors that \<open>RecordHTTPRequest\<close> writes to, each by the samples it has received
  in order: the label values of every \<open>Inc\<close> of the counter, the label values and the
  sample of every \<open>Observe\<close> of a histogram. The size histograms are given
  \<open>float64(reqSize)\<close>; the sample is kept as the \<open>int64\<close> it is converted from.
\<close>

record Collectors =
  httpRequestsTotal :: "string list list"
  httpRequestDuration :: "(string list \<times> float64) list"
  httpRequestSize :: "(string list \<times> int64) list"
  httpResponseSize :: "(string list \<times> int64) list"

definition RecordHTTPRequest ::
  "string \<Rightarrow> string \<Rightarrow> int \<Rightarrow> float64 \<Rightarrow> int64 \<Rightarrow> int64 \<Rightarrow> Collectors \<Rightarrow> Collectors" where
  "RecordHTTPRequest method endpoint status duration reqSize respSize m =
     (let statusStr = Itoa status;
          m1 = m\<lparr>httpRequestsTotal := httpRequestsTotal m @ [[method, endpoint, statusStr]]\<rparr>;
          m2 = m1\<lparr>httpRequestDuration :=
                     httpRequestDuration m1 @ [([method, endpoint, statusStr], duration)]\<rparr>;
          m3 = (if sint reqSize > 0
                then m2\<lparr>httpRequestSize := httpRequestSize m2 @ [([method, endpoint], reqSize)]\<rparr>
                else m2)
      in if sint respSize > 0
         then m3\<lparr>httpResponseSize := httpResponseSize m3 @ [([method, endpoint], respSize)]\<rparr>
         else m3)"

section \<open>The playground handler\<close>

record PlaygroundChatRequest =
  GroupName :: string
  Model :: string
  Messages :: "(string \<times> json) list list"
  Temperature :: float64

record PlaygroundChatResponse =
  Content :: string
  response_Model :: string

text \<open>Modelled from the spec: \<open>response.Error\<close> and \<open>response.Success\<close> are not part of the
  sources; an error response carries the HTTP status and the message the handler gives it, a
  success response is a 200 with the data.\<close>

datatype Reply = response_Error int string | response_Success PlaygroundChatResponse

definition reply_status :: "Reply \<Rightarrow> int" where
  "reply_status r = (case r of response_Error code _ \<Rightarrow> code | response_Success _ \<Rightarrow> 200)"

text \<open>
  The server: the tables \<open>groups\<close> and \<open>api_keys\<close> of its database, the decryption of its
  encryption service, and the \<open>Do\<close> of the HTTP client the calls create.
\<close>

record Server =
  groups :: "Group list"
  api_keys :: "APIKey list"
  Decrypt :: "string \<Rightarrow> error + string"
  Do :: "Request \<Rightarrow> error + Response"

text \<open>\<open>m[k]\<close> on a \<open>map[string]interface{}\<close>: \<open>nil\<close> for an absent key.\<close>

definition index :: "(string \<times> json) list \<Rightarrow> string \<Rightarrow> json" where
  "index m k = (case map_of m k of None \<Rightarrow> JNull | Some v \<Rightarrow> v)"

text \<open>A slice that was never appended to is \<open>nil\<close> and is marshalled as \<open>null\<close>.\<close>

definition slice :: "json list \<Rightarrow> json" where
  "slice xs = (if xs = [] then JNull else JArray xs)"

text \<open>What the three calls share after the request is sent: the body is read, the status
  checked, the body decoded and the content extracted.\<close>

definition read_reply ::
  "Env \<Rightarrow> ((string \<times> json) list \<Rightarrow> string option) \<Rightarrow> error + Response \<Rightarrow> error + string" where
  "read_reply E extract sent =
     (case sent of
        Inl e \<Rightarrow> Inl e
      | Inr resp \<Rightarrow>
          (case Body resp of
             Inl e \<Rightarrow> Inl e
           | Inr body \<Rightarrow>
               if StatusCode resp \<noteq> 200
               then Inl (''API returned status '' @ Itoa (StatusCode resp) @ '': '' @ body)
               else (case Unmarshal_object E body of
                       Inl e \<Rightarrow> Inl e
                     | Inr result \<Rightarrow>
                         (case extract result of
                            Some content \<Rightarrow> Inr content
                          | None \<Rightarrow> Inl ''unexpected response format''))))"

subsection \<open>\<open>callOpenAI\<close>\<close>

definition callOpenAI_request ::
  "Env \<Rightarrow> string \<Rightarrow> string \<Rightarrow> PlaygroundChatRequest \<Rightarrow> error + Request" where
  "callOpenAI_request E baseURL apiKey req =
     (let reqBody = JObject
            [(''model'', JString (Model req)),
             (''messages'', JArray (map JObject (Messages req))),
             (''temperature'', JFloat (Temperature req))]
      in case json_Marshal E reqBody of
           Inl e \<Rightarrow> Inl e
         | Inr jsonData \<Rightarrow>
             (case NewRequest E ''POST'' (baseURL @ ''/v1/chat/completions'') jsonData of
                Inl e \<Rightarrow> Inl e
              | Inr httpReq \<Rightarrow>
                  Inr (Header_Set (Header_Set httpReq ''Authorization'' (''Bearer '' @ apiKey))
                         ''Content-Type'' ''application/json'')))"

definition OpenAI_content :: "(string \<times> json) list \<Rightarrow> string option" where
  "OpenAI_content result =
     (case index result ''choices'' of
        JArray choices \<Rightarrow>
          (case choices of
             [] \<Rightarrow> None
           | c0 # _ \<Rightarrow>
               (case c0 of
                  JObject choice \<Rightarrow>
                    (case index choice ''message'' of
                       JObject message \<Rightarrow>
                         (case index message ''content'' of
                            JString content \<Rightarrow> Some content
                          | _ \<Rightarrow> None)
                     | _ \<Rightarrow> None)
                | _ \<Rightarrow> None))
      | _ \<Rightarrow> None)"

definition callOpenAI ::
  "Env \<Rightarrow> Server \<Rightarrow> string \<Rightarrow> string \<Rightarrow> PlaygroundChatRequest \<Rightarrow> error + string" where
  "callOpenAI E s baseURL apiKey req =
     (case callOpenAI_request E baseURL apiKey req of
        Inl e \<Rightarrow> Inl e
      | Inr httpReq \<Rightarrow> read_reply E OpenAI_content (Do s httpReq))"

subsection \<open>\<open>callGemini\<close>\<close>

fun gemini_contents :: "(string \<times> json) list list \<Rightarrow> json list" where
  "gemini_contents [] = []"
| "gemini_contents (msg # msgs) =
     (let role = (if index msg ''role'' = JString ''assistant'' then ''model'' else ''user'')
      in case index msg ''content'' of
           JString content \<Rightarrow>
             JObject [(''role'', JString role),
                      (''parts'', JArray [JObject [(''text'', JString content)]])]
               # gemini_contents msgs
         | _ \<Rightarrow> gemini_contents msgs)"

definition callGemini_request ::
  "Env \<Rightarrow> string \<Rightarrow> string \<Rightarrow> PlaygroundChatRequest \<Rightarrow> error + Request" where
  "callGemini_request E baseURL apiKey req =
     (let reqBody = JObject
            [(''contents'', slice (gemini_contents (Messages req))),
             (''generationConfig'', JObject [(''temperature'', JFloat (Temperature req))])]
      in case json_Marshal E reqBody of
           Inl e \<Rightarrow> Inl e
         | Inr jsonData \<Rightarrow>
             (case NewRequest E ''POST''
                     (baseURL @ ''/v1beta/models/'' @ Model req @ '':generateContent?key='' @ apiKey)
                     jsonData of
                Inl e \<Rightarrow> Inl e
              | Inr httpReq \<Rightarrow> Inr (Header_Set httpReq ''Content-Type'' ''application/json'')))"

definition Gemini_content :: "(string \<times> json) list \<Rightarrow> string option" where
  "Gemini_content result =
     (case index result ''candidates'' of
        JArray candidates \<Rightarrow>
          (case candidates of
             [] \<Rightarrow> None
           | c0 # _ \<Rightarrow>
               (case c0 of
                  JObject candidate \<Rightarrow>
                    (case index candidate ''content'' of
                       JObject content \<Rightarrow>
                         (case index content ''parts'' of
                            JArray parts \<Rightarrow>
                              (case parts of
                                 [] \<Rightarrow> None
                               | p0 # _ \<Rightarrow>
                                   (case p0 of
                                      JObject part \<Rightarrow>
                                        (case index part ''text'' of
                                           JString t \<Rightarrow> Some t
                                         | _ \<Rightarrow> None)
                                    | _ \<Rightarrow> None))
                          | _ \<Rightarrow> None)
                     | _ \<Rightarrow> None)
                | _ \<Rightarrow> None))
      | _ \<Rightarrow> None)"

definition callGemini ::
  "Env \<Rightarrow> Server \<Rightarrow> string \<Rightarrow> string \<Rightarrow> PlaygroundChatRequest \<Rightarrow> error + string" where
  "callGemini E s baseURL apiKey req =
     (case callGemini_request E baseURL apiKey req of
        Inl e \<Rightarrow> Inl e
      | Inr httpReq \<Rightarrow> read_reply E Gemini_content (Do s httpReq))"

subsection \<open>\<open>callAnthropic\<close>\<close>

fun anthropic_messages :: "(string \<times> json) list list \<Rightarrow> json list" where
  "anthropic_messages [] = []"
| "anthropic_messages (msg # msgs) =
     (case index msg ''content'' of
        JString content \<Rightarrow>
          JObject [(''role'', index msg ''role''), (''content'', JString content)]
            # anthropic_messages msgs
      | _ \<Rightarrow> anthropic_messages msgs)"

definition callAnthropic_request ::
  "Env \<Rightarrow> string \<Rightarrow> string \<Rightarrow> PlaygroundChatRequest \<Rightarrow> error + Request" where
  "callAnthropic_request E baseURL apiKey req =
     (let reqBody = JObject
            [(''model'', JString (Model req)),
             (''messages'', slice (anthropic_messages (Messages req))),
             (''max_tokens'', JInt 1024),
             (''temperature'', JFloat (Temperature req))]
      in case json_Marshal E reqBody of
           Inl e \<Rightarrow> Inl e
         | Inr jsonData \<Rightarrow>
             (case NewRequest E ''POST'' (baseURL @ ''/v1/messages'') jsonData of
                Inl e \<Rightarrow> Inl e
              | Inr httpReq \<Rightarrow>
                  Inr (Header_Set
                         (Header_Set (Header_Set httpReq ''x-api-key'' apiKey)
                            ''anthropic-version'' ''2023-06-01'')
                         ''Content-Type'' ''application/json'')))"

definition Anthropic_content :: "(string \<times> json) list \<Rightarrow> string option" where
  "Anthropic_content result =
     (case index result ''content'' of
        JArray content \<Rightarrow>
          (case content of
             [] \<Rightarrow> None
           | b0 # _ \<Rightarrow>
               (case b0 of
                  JObject textBlock \<Rightarrow>
                    (case index textBlock ''text'' of
                       JString t \<Rightarrow> Some t
                     | _ \<Rightarrow> None)
                | _ \<Rightarrow> None))
      | _ \<Rightarrow> None)"

definition callAnthropic ::
  "Env \<Rightarrow> Server \<Rightarrow> string \<Rightarrow> string \<Rightarrow> PlaygroundChatRequest \<Rightarrow> error + string" where
  "callAnthropic E s baseURL apiKey req =
     (case callAnthropic_request E baseURL apiKey req of
        Inl e \<Rightarrow> Inl e
      | Inr httpReq \<Rightarrow> read_reply E Anthropic_content (Do s httpReq))"

subsection \<open>\<open>PlaygroundChat\<close>\<close>

text \<open>The two queries of the handler. \<open>Order("RANDOM()").First\<close> takes one of the active
  keys of the group; which one is decided by the number \<open>rnd\<close>.\<close>

definition find_group :: "Server \<Rightarrow> string \<Rightarrow> Group option" where
  "find_group s name = find (\<lambda>g. group_Name g = name) (groups s)"

definition random_active_key :: "Server \<Rightarrow> nat \<Rightarrow> nat \<Rightarrow> APIKey option" where
  "random_active_key s rnd gid =
     (let active = filter (\<lambda>k. key_GroupID k = gid \<and> Status k = KeyStatusActive) (api_keys s)
      in if active = [] then None else Some (active ! (rnd mod length active)))"

text \<open>
  The handler takes what \<open>c.ShouldBindJSON(&req)\<close> yields and the server, and gives the
  response it writes and the server it leaves.
\<close>

definition PlaygroundChat ::
  "Env \<Rightarrow> nat \<Rightarrow> error + PlaygroundChatRequest \<Rightarrow> Server \<Rightarrow> Reply \<times> Server" where
  "PlaygroundChat E rnd bound s =
     (case bound of
        Inl err \<Rightarrow> (response_Error 400 ''Invalid request format'', s)
      | Inr req \<Rightarrow>
          (case find_group s (GroupName req) of
             None \<Rightarrow> (response_Error 404 (''Group '' @ [CHR 0x27] @ GroupName req @ [CHR 0x27]
                                            @ '' not found''), s)
           | Some grp \<Rightarrow>
               (case group_Upstreams grp of
                  [] \<Rightarrow> (response_Error 400 ''Group has no upstreams configured'', s)
                | upstream # _ \<Rightarrow>
                 (case random_active_key s rnd (group_ID grp) of
                      None \<Rightarrow> (response_Error 500 ''No active API keys available in this group'', s)
                    | Some apiKey \<Rightarrow>
                        (case Decrypt s (KeyValue apiKey) of
                           Inl err \<Rightarrow> (response_Error 500 ''Failed to decrypt API key'', s)
                         | Inr decryptedKey \<Rightarrow>
                             let called =
                                   (if ChannelType grp = ''openai''
                                    then callOpenAI E s (upstream_URL upstream) decryptedKey req
                                    else if ChannelType grp = ''gemini''
                                    then callGemini E s (upstream_URL upstream) decryptedKey req
                                    else if ChannelType grp = ''anthropic''
                                    then callAnthropic E s (upstream_URL upstream) decryptedKey req
                                    else callOpenAI E s (upstream_URL upstream) decryptedKey req)
                             in case called of
                                  Inl apiErr \<Rightarrow> (response_Error 500 (''API call failed: '' @ apiErr), s)
                                | Inr upstreamResp \<Rightarrow>
                                    (response_Success
                                       \<lparr>Content = upstreamResp, response_Model = Model req\<rparr>, s))))))"

section \<open>A concrete environment\<close>

text \<open>A small instance of the environment on which the theorems below are exercised: URLs of
  the shape \<open>scheme://host/path?query\<close> are not taken apart; the decoders know a few
  literal bodies.\<close>

definition example_URL :: URL where
  "example_URL = \<lparr>Scheme = ''https'', Opaque = [], User = None, Host = ''api.example.com'',
     Path = ''/proxy/'', RawPath = [], OmitHost = False, ForceQuery = False, RawQuery = [],
     Fragment = [], RawFragment = []\<rparr>"

definition example_String :: "URL \<Rightarrow> string" where
  "example_String u = Scheme u @ ''://'' @ Host u @ Path u
     @ (if RawQuery u = [] then [] else CHR ''?'' # RawQuery u)"

definition example_Env :: Env where
  "example_Env =
     \<lparr>url_Parse = (\<lambda>s. if s = [] then Inl ''empty url''
                        else if s = ''/v1/chat/completions?api-version=1''
                        then Inr (example_URL\<lparr>Scheme := [], Host := [],
                                    Path := ''/v1/chat/completions'', RawQuery := ''api-version=1''\<rparr>)
                        else Inr (example_URL\<lparr>Scheme := [], Host := [], Path := s\<rparr>)),
      URL_String = example_String,
      json_Marshal = (\<lambda>j. Inr ''{}''),
      Unmarshal_stream = (\<lambda>b. if b = ''{\"model\":\"x\",\"stream\":true}'' then Inr \<lparr>Stream = True\<rparr>
                               else if b = ''{}'' then Inr \<lparr>Stream = False\<rparr> else Inl ''invalid character''),
      Unmarshal_catalog = (\<lambda>b. if b = ''catalog''
                                then Inr [\<lparr>entry_ID = ''gpt-4-vision-preview'', entry_Kind = ''model'', entry_Owner = ''openai''\<rparr>,
                                          \<lparr>entry_ID = ''vision-xl'', entry_Kind = ''model'', entry_Owner = ''other''\<rparr>,
                                          \<lparr>entry_ID = ''gpt-3.5-turbo'', entry_Kind = ''model'', entry_Owner = ''openai''\<rparr>]
                                else Inl ''unexpected end of JSON input''),
      Unmarshal_object = (\<lambda>b. if b = ''chat''
                               then Inr [(''choices'', JArray [JObject [(''message'',
                                      JObject [(''role'', JString ''assistant''),
                                               (''content'', JString ''hello'')])]])]
                               else Inl ''invalid character''),
      ParseUpstreamError = (\<lambda>b. if b = [] then ''Unknown error'' else b),
      ApplyHeaderRules = (\<lambda>h rules ctx. h)\<rparr>"

definition example_Group :: Group where
  "example_Group = \<lparr>group_ID = 7, group_Name = ''g'', ChannelType = ''openai'',
     group_Upstreams = [\<lparr>upstream_URL = ''https://api.example.com/proxy/'', Weight = 1\<rparr>],
     HeaderRuleList = []\<rparr>"

definition example_Key :: APIKey where
  "example_Key = \<lparr>key_ID = 3, key_GroupID = 7, KeyValue = ''sk-XYZ'', Status = KeyStatusActive\<rparr>"

definition example_Channel :: "(Request \<Rightarrow> error + Response) \<Rightarrow> BaseChannel" where
  "example_Channel client = \<lparr>Name = ''openai'', Upstreams = [example_URL],
     TestModel = ''gpt-4o-mini'', ValidationEndpoint = ''/v1/chat/completions?api-version=1'',
     HTTPClient = client\<rparr>"

text \<open>An upstream that serves the catalogue, and the rows fetched from it.\<close>

definition catalog_client :: "Request \<Rightarrow> error + Response" where
  "catalog_client req = Inr \<lparr>StatusCode = 200, Body = Inr ''catalog''\<rparr>"

definition example_rows :: "ModelCapabilities list" where
  "example_rows =
     [ModelCapabilities_zero\<lparr>GroupID := 7, ModelID := ''gpt-4-vision-preview'',
        ModelName := ''gpt-4-vision-preview'', SupportsStreaming := True, SupportsVision := True,
        SupportsFunctions := True, IsAutoFetched := True, LastFetchedAt := Some 1000\<rparr>,
      ModelCapabilities_zero\<lparr>GroupID := 7, ModelID := ''vision-xl'',
        ModelName := ''vision-xl'', SupportsStreaming := True, IsAutoFetched := True,
        LastFetchedAt := Some 1000\<rparr>,
      ModelCapabilities_zero\<lparr>GroupID := 7, ModelID := ''gpt-3.5-turbo'',
        ModelName := ''gpt-3.5-turbo'', SupportsStreaming := True, SupportsFunctions := True,
        IsAutoFetched := True, LastFetchedAt := Some 1000\<rparr>]"

text \<open>A request context without header and query, the probes of the two channels, and an
  upstream that answers every request with a given status and body.\<close>

definition no_signal :: GinContext where
  "no_signal = \<lparr>RequestHeader = [], QueryParams = []\<rparr>"

definition example_probe :: Request where
  "example_probe = \<lparr>Method = ''POST'',
     RequestURL = ''https://api.example.com/proxy/v1/chat/completions?api-version=1'',
     Headers = [(''Authorization'', ''Bearer sk-XYZ''), (''Content-Type'', ''application/json'')],
     RequestBody = ''{}''\<rparr>"

definition example_probe_anthropic :: Request where
  "example_probe_anthropic = \<lparr>Method = ''POST'',
     RequestURL = ''https://api.example.com/proxy/v1/chat/completions?api-version=1'',
     Headers = [(''x-api-key'', ''sk-XYZ''), (''anthropic-version'', ''2023-06-01''), (''Content-Type'', ''application/json'')],
     RequestBody = ''{}''\<rparr>"

definition status_client :: "int \<Rightarrow> string \<Rightarrow> Request \<Rightarrow> error + Response" where
  "status_client code body req = Inr \<lparr>StatusCode = code, Body = Inr body\<rparr>"

text \<open>A stored row with custom capabilities, a service on the example channel, and tables
  before and after a refresh.\<close>

definition example_custom :: "(string \<times> json) list" where
  "example_custom = [(''tier'', JString ''gold'')]"

definition example_stored :: ModelCapabilities where
  "example_stored = ModelCapabilities_zero\<lparr>ID := 1, GroupID := 7,
     ModelID := ''gpt-4-vision-preview'', ModelName := ''old name'', MaxTokens := Some 4096,
     IsAutoFetched := True, LastFetchedAt := Some 10\<rparr>"

definition example_State :: "ModelCapabilities list \<Rightarrow> State" where
  "example_State rs = \<lparr>rows = rs, faults = [], provider_calls = 0\<rparr>"

definition example_Service :: ModelService where
  "example_Service = \<lparr>GetChannel = (\<lambda>g. Inr \<lparr>FetchModels =
     OpenAI_FetchModels example_Env 1000 (example_Channel catalog_client)\<rparr>)\<rparr>"

definition example_refreshed :: "ModelCapabilities list" where
  "example_refreshed =
     [(example_rows ! 0)\<lparr>ID := 1, MaxTokens := Some 4096, CustomCapabilities := example_custom\<rparr>,
      (example_rows ! 1)\<lparr>ID := 2\<rparr>,
      (example_rows ! 2)\<lparr>ID := 3\<rparr>]"





text \<open>Collectors without samples.\<close>

definition no_samples :: Collectors where
  "no_samples = \<lparr>httpRequestsTotal = [], httpRequestDuration = [], httpRequestSize = [],
     httpResponseSize = []\<rparr>"

text \<open>A chat request, an upstream that answers the chat call of the OpenAI format, and a
  server of one group and one key.\<close>

definition example_chat :: PlaygroundChatRequest where
  "example_chat = \<lparr>GroupName = ''g'', Model = ''gpt-4o-mini'',
     Messages = [[(''role'', JString ''user''), (''content'', JString ''hi'')]],
     Temperature = 0\<rparr>"

definition chat_client :: "Request \<Rightarrow> error + Response" where
  "chat_client req =
     (if Method req = ''POST'' \<and>
         RequestURL req = ''https://api.example.com/proxy//v1/chat/completions'' \<and>
         map_of (Headers req) ''Authorization'' = Some ''Bearer sk-XYZ''
      then Inr \<lparr>StatusCode = 200, Body = Inr ''chat''\<rparr>
      else Inr \<lparr>StatusCode = 404, Body = Inr ''not found''\<rparr>)"

definition example_Server :: "string \<Rightarrow> (string \<Rightarrow> error + string) \<Rightarrow> Server" where
  "example_Server channelType decrypt =
     \<lparr>groups = [example_Group\<lparr>ChannelType := channelType\<rparr>],
      api_keys = [example_Key\<lparr>KeyValue := ''ciphertext''\<rparr>],
      Decrypt = decrypt,
      Do = chat_client\<rparr>"

section \<open>Properties of the string functions\<close>

lemma HasPrefix_iff: "HasPrefix s p \<longleftrightarrow> (\<exists>post. s = p @ post)"
  by (induction s p rule: HasPrefix.induct) auto

lemma Contains_iff: "Contains s t \<longleftrightarrow> (\<exists>pre post. s = pre @ t @ post)"
proof (induction s)
  case Nil
  then show ?case by simp
next
  case (Cons c cs)
  show ?case
  proof
    assume "Contains (c # cs) t"
    then consider "HasPrefix (c # cs) t" | "Contains cs t" by auto
    then show "\<exists>pre post. c # cs = pre @ t @ post"
    proof cases
      case 1
      then obtain post where "c # cs = t @ post" by (auto simp: HasPrefix_iff)
      then have "c # cs = [] @ t @ post" by simp
      then show ?thesis by blast
    next
      case 2
      then obtain pre post where "cs = pre @ t @ post" using Cons.IH by blast
      then have "c # cs = (c # pre) @ t @ post" by simp
      then show ?thesis by blast
    qed
  next
    assume "\<exists>pre post. c # cs = pre @ t @ post"
    then obtain pre post where e: "c # cs = pre @ t @ post" by blast
    show "Contains (c # cs) t"
    proof (cases pre)
      case Nil
      with e have "HasPrefix (c # cs) t" by (auto simp: HasPrefix_iff)
      then show ?thesis by simp
    next
      case (Cons a pre')
      with e have "cs = pre' @ t @ post" by simp
      then have "Contains cs t" using Cons.IH by blast
      then show ?thesis by simp
    qed
  qed
qed

section \<open>Properties of the model discovery of the OpenAI channel\<close>

lemma OpenAI_capability_flags:
  "SupportsStreaming (OpenAI_capability grp now m)"
  "SupportsFunctions (OpenAI_capability grp now m) \<longleftrightarrow>
     Contains (entry_ID m) ''gpt-4'' \<or> Contains (entry_ID m) ''gpt-3.5''"
  "SupportsVision (OpenAI_capability grp now m) \<longleftrightarrow>
     (Contains (entry_ID m) ''gpt-4'' \<or> Contains (entry_ID m) ''gpt-3.5'') \<and>
     Contains (entry_ID m) ''vision''"
  "ModelID (OpenAI_capability grp now m) = entry_ID m"
  "IsAutoFetched (OpenAI_capability grp now m)"
  "LastFetchedAt (OpenAI_capability grp now m) = Some now"
  by (simp_all add: OpenAI_capability_def ModelCapabilities_zero_def Let_def)

lemma OpenAI_FetchModels_rows:
  assumes "OpenAI_FetchModels E now ch apiKey grp = Inr capabilities"
  shows "\<exists>bodyBytes dat. Unmarshal_catalog E bodyBytes = Inr dat \<and>
           capabilities = map (OpenAI_capability grp now) dat"
  using assms
  by (auto simp: OpenAI_FetchModels_def Let_def split: option.splits sum.splits if_splits)

text \<open>
  C1 (as amended). Whenever \<open>OpenAIChannel.FetchModels\<close> returns rows, they are the rows of
  the ids of the decoded catalogue, in order, and every row has \<open>supports_streaming\<close> set,
  has \<open>supports_functions\<close> set iff its id contains \<open>gpt-4\<close> or \<open>gpt-3.5\<close>, and has
  \<open>supports_vision\<close> set iff its id contains \<open>vision\<close> and also contains \<open>gpt-4\<close> or
  \<open>gpt-3.5\<close>: the test for \<open>vision\<close> is made only inside the branch of the first test.
\<close>

theorem OpenAI_FetchModels_capabilities:
  assumes "OpenAI_FetchModels E now ch apiKey grp = Inr capabilities"
  shows "(\<exists>bodyBytes dat. Unmarshal_catalog E bodyBytes = Inr dat \<and>
            map ModelID capabilities = map entry_ID dat) \<and>
         (\<forall>c \<in> set capabilities.
            SupportsStreaming c \<and>
            (SupportsFunctions c \<longleftrightarrow>
               Contains (ModelID c) ''gpt-4'' \<or> Contains (ModelID c) ''gpt-3.5'') \<and>
            (SupportsVision c \<longleftrightarrow>
               (Contains (ModelID c) ''gpt-4'' \<or> Contains (ModelID c) ''gpt-3.5'') \<and>
               Contains (ModelID c) ''vision''))"
proof -
  obtain bodyBytes dat where d: "Unmarshal_catalog E bodyBytes = Inr dat"
    and c: "capabilities = map (OpenAI_capability grp now) dat"
    using OpenAI_FetchModels_rows [OF assms] by blast
  have "map ModelID capabilities = map entry_ID dat"
    by (simp add: c OpenAI_capability_flags)
  moreover have "\<forall>c \<in> set capabilities.
            SupportsStreaming c \<and>
            (SupportsFunctions c \<longleftrightarrow>
               Contains (ModelID c) ''gpt-4'' \<or> Contains (ModelID c) ''gpt-3.5'') \<and>
            (SupportsVision c \<longleftrightarrow>
               (Contains (ModelID c) ''gpt-4'' \<or> Contains (ModelID c) ''gpt-3.5'') \<and>
               Contains (ModelID c) ''vision'')"
    unfolding c by (auto simp: OpenAI_capability_flags)
  ultimately show ?thesis using d by blast
qed

text \<open>The theorem at a catalogue of three ids, fetched through the example channel.\<close>

theorem OpenAI_FetchModels_capabilities_witness:
  "OpenAI_FetchModels example_Env 1000 (example_Channel catalog_client) example_Key example_Group
     = Inr example_rows \<and>
   list_all (\<lambda>c. SupportsStreaming c \<and>
            (SupportsFunctions c \<longleftrightarrow>
               Contains (ModelID c) ''gpt-4'' \<or> Contains (ModelID c) ''gpt-3.5'') \<and>
            (SupportsVision c \<longleftrightarrow>
               (Contains (ModelID c) ''gpt-4'' \<or> Contains (ModelID c) ''gpt-3.5'') \<and>
               Contains (ModelID c) ''vision'')) example_rows \<and>
   map SupportsVision example_rows = [True, False, False]"
proof -
  have h: "OpenAI_FetchModels example_Env 1000 (example_Channel catalog_client) example_Key
             example_Group = Inr example_rows"
    by code_simp
  have v: "map SupportsVision example_rows = [True, False, False]"
    by (simp add: example_rows_def ModelCapabilities_zero_def)
  show ?thesis
    using h v OpenAI_FetchModels_capabilities [OF h] by (simp add: list_all_iff)
qed

text \<open>C1 as stated fails: the catalogue id \<open>vision-xl\<close> contains \<open>vision\<close>, and its row
  does not have \<open>supports_vision\<close> set.\<close>

theorem OpenAI_vision_counterexample:
  "OpenAI_FetchModels example_Env 1000 (example_Channel catalog_client) example_Key example_Group
     = Inr example_rows \<and>
   ModelID (example_rows ! 1) = ''vision-xl'' \<and>
   Contains (ModelID (example_rows ! 1)) ''vision'' \<and>
   \<not> SupportsVision (example_rows ! 1)"
  by code_simp

section \<open>Properties of stream detection\<close>

text \<open>
  C2. For every request context and body, \<open>IsStreamRequest\<close> (of the OpenAI and of the
  Anthropic channel) is true iff the \<open>Accept\<close> header contains \<open>text/event-stream\<close>, or
  the query parameter \<open>stream\<close> equals \<open>true\<close>, or the body is decoded without error
  and its field \<open>stream\<close> is true. When the body fails to decode and neither the header
  nor the query signals streaming, the result is false (the function has no error result).
\<close>

theorem IsStreamRequest_iff:
  "(OpenAI_IsStreamRequest E c bodyBytes \<longleftrightarrow>
      Contains (GetHeader c ''Accept'') ''text/event-stream'' \<or>
      Query c ''stream'' = ''true'' \<or>
      (\<exists>p. Unmarshal_stream E bodyBytes = Inr p \<and> Stream p)) \<and>
   (Anthropic_IsStreamRequest E c bodyBytes \<longleftrightarrow>
      Contains (GetHeader c ''Accept'') ''text/event-stream'' \<or>
      Query c ''stream'' = ''true'' \<or>
      (\<exists>p. Unmarshal_stream E bodyBytes = Inr p \<and> Stream p)) \<and>
   ((\<exists>err. Unmarshal_stream E bodyBytes = Inl err) \<and>
    \<not> Contains (GetHeader c ''Accept'') ''text/event-stream'' \<and>
    Query c ''stream'' \<noteq> ''true'' \<longrightarrow>
      OpenAI_IsStreamRequest E c bodyBytes = False \<and>
      Anthropic_IsStreamRequest E c bodyBytes = False)"
  by (auto simp: OpenAI_IsStreamRequest_def Anthropic_IsStreamRequest_def split: sum.splits)

text \<open>The theorem at the body of the specification's scenario, at a body that does not
  decode, and at the two other signals.\<close>

theorem IsStreamRequest_iff_witness:
  "OpenAI_IsStreamRequest example_Env no_signal ''{\"model\":\"x\",\"stream\":true}'' \<and>
   Anthropic_IsStreamRequest example_Env no_signal ''{\"model\":\"x\",\"stream\":true}'' \<and>
   Unmarshal_stream example_Env ''{stream'' = Inl ''invalid character'' \<and>
   \<not> OpenAI_IsStreamRequest example_Env no_signal ''{stream'' \<and>
   \<not> Anthropic_IsStreamRequest example_Env no_signal ''{stream'' \<and>
   OpenAI_IsStreamRequest example_Env (no_signal\<lparr>QueryParams := [(''stream'', ''true'')]\<rparr>) ''{stream'' \<and>
   Anthropic_IsStreamRequest example_Env
     (no_signal\<lparr>RequestHeader := [(''Accept'', ''application/json, text/event-stream'')]\<rparr>) ''{stream''"
proof -
  have u: "Unmarshal_stream example_Env ''{\"model\":\"x\",\"stream\":true}'' = Inr \<lparr>Stream = True\<rparr>"
    "Unmarshal_stream example_Env ''{stream'' = Inl ''invalid character''"
    by (simp_all add: example_Env_def)
  have q: "Query no_signal ''stream'' = []" "GetHeader no_signal ''Accept'' = []"
    "Query (no_signal\<lparr>QueryParams := [(''stream'', ''true'')]\<rparr>) ''stream'' = ''true''"
    "Contains (GetHeader (no_signal\<lparr>RequestHeader := [(''Accept'', ''application/json, text/event-stream'')]\<rparr>) ''Accept'') ''text/event-stream''"
    by (simp_all add: Query_def GetHeader_def no_signal_def)
  show ?thesis
    using u q
      IsStreamRequest_iff [of example_Env no_signal "''{\"model\":\"x\",\"stream\":true}''"]
      IsStreamRequest_iff [of example_Env no_signal "''{stream''"]
      IsStreamRequest_iff [of example_Env "no_signal\<lparr>QueryParams := [(''stream'', ''true'')]\<rparr>" "''{stream''"]
      IsStreamRequest_iff [of example_Env "no_signal\<lparr>RequestHeader := [(''Accept'', ''application/json, text/event-stream'')]\<rparr>" "''{stream''"]
    by simp
qed

section \<open>Properties of key validation\<close>

lemma validation_result_status:
  "validation_result E (Inr resp) = (True, None) \<longleftrightarrow> 200 \<le> StatusCode resp \<and> StatusCode resp < 300"
  by (auto simp: validation_result_def split: sum.splits)

lemma validation_result_reason:
  "\<not> (200 \<le> StatusCode resp \<and> StatusCode resp < 300) \<Longrightarrow> Body resp = Inr errorBody \<Longrightarrow>
   validation_result E (Inr resp) =
     (False, Some (''[status '' @ Itoa (StatusCode resp) @ ''] '' @ ParseUpstreamError E errorBody))"
  by (auto simp: validation_result_def)

text \<open>
  C5. For every response of the upstream to the probe of \<open>ValidateKey\<close> (of the OpenAI and
  of the Anthropic channel), the result is \<open>(true, nil)\<close> iff the status code is in
  \<open>[200, 300)\<close>; for every other status \<open>N\<close> whose body can be read, the result is
  \<open>false\<close> with the error message \<open>[status N]\<close>, a space, and what
  \<open>ParseUpstreamError\<close> extracts from the body.
\<close>

theorem ValidateKey_by_status:
  assumes "(OpenAI_probe E ch apiKey grp = Inr req \<and> V = OpenAI_ValidateKey E ch apiKey grp) \<or>
           (Anthropic_probe E ch apiKey grp = Inr req \<and> V = Anthropic_ValidateKey E ch apiKey grp)"
    and "HTTPClient ch req = Inr resp"
  shows "(V = (True, None) \<longleftrightarrow> 200 \<le> StatusCode resp \<and> StatusCode resp < 300) \<and>
         (\<forall>errorBody.
            \<not> (200 \<le> StatusCode resp \<and> StatusCode resp < 300) \<and> Body resp = Inr errorBody \<longrightarrow>
            V = (False, Some (''[status '' @ Itoa (StatusCode resp) @ ''] ''
                              @ ParseUpstreamError E errorBody)))"
proof -
  from assms have "V = validation_result E (Inr resp)"
    by (auto simp: OpenAI_ValidateKey_def Anthropic_ValidateKey_def)
  then show ?thesis
    using validation_result_status [of E resp] validation_result_reason [of resp _ E] by auto
qed

lemma example_probes:
  "OpenAI_probe example_Env (example_Channel client) example_Key example_Group = Inr example_probe"
  "Anthropic_probe example_Env (example_Channel client) example_Key example_Group = Inr example_probe_anthropic"
  by (simp_all add: OpenAI_probe_def Anthropic_probe_def example_Env_def example_Channel_def
      example_Key_def example_Group_def getUpstreamURL_def example_URL_def example_String_def
      NewRequest_def Header_Set_def apply_group_rules_def TrimRight_def example_probe_def
      example_probe_anthropic_def Let_def)

lemma Itoa_401: "Itoa 401 = ''401''"
  by (simp add: Itoa_def FormatUint.simps digit_def)

text \<open>The theorem at a 204 and at a 401 with a body.\<close>

theorem ValidateKey_by_status_witness:
  "OpenAI_ValidateKey example_Env (example_Channel (status_client 204 [])) example_Key example_Group
     = (True, None) \<and>
   OpenAI_ValidateKey example_Env (example_Channel (status_client 401 ''invalid api key''))
       example_Key example_Group
     = (False, Some ''[status 401] invalid api key'') \<and>
   Anthropic_ValidateKey example_Env (example_Channel (status_client 401 ''invalid api key''))
       example_Key example_Group
     = (False, Some ''[status 401] invalid api key'')"
proof -
  have p: "ParseUpstreamError example_Env ''invalid api key'' = ''invalid api key''"
    by (simp add: example_Env_def)
  have c: "HTTPClient (example_Channel (status_client code b)) r = Inr \<lparr>StatusCode = code, Body = Inr b\<rparr>" for code b r
    by (simp add: example_Channel_def status_client_def)
  show ?thesis
    using p Itoa_401
      ValidateKey_by_status [of example_Env "example_Channel (status_client 204 [])" example_Key
        example_Group example_probe _ "\<lparr>StatusCode = 204, Body = Inr []\<rparr>", OF disjI1, OF conjI, OF example_probes(1) refl c]
      ValidateKey_by_status [of example_Env "example_Channel (status_client 401 ''invalid api key'')"
        example_Key example_Group example_probe _ "\<lparr>StatusCode = 401, Body = Inr ''invalid api key''\<rparr>",
        OF disjI1, OF conjI, OF example_probes(1) refl c]
      ValidateKey_by_status [of example_Env "example_Channel (status_client 401 ''invalid api key'')"
        example_Key example_Group example_probe_anthropic _ "\<lparr>StatusCode = 401, Body = Inr ''invalid api key''\<rparr>",
        OF disjI2, OF conjI, OF example_probes(2) refl c]
    by simp
qed

lemma TrimRight_slash:
  "(\<exists>n. s = TrimRight s ''/'' @ replicate n (CHR ''/'')) \<and>
   (TrimRight s ''/'' = [] \<or> last (TrimRight s ''/'') \<noteq> CHR ''/'')"
proof -
  have a: "xs = replicate (length (takeWhile (\<lambda>c. c = CHR ''/'') xs)) (CHR ''/'') @ dropWhile (\<lambda>c. c = CHR ''/'') xs" for xs :: string
    by (induction xs) auto
  have "rev (rev s) = rev (dropWhile (\<lambda>c. c = CHR ''/'') (rev s)) @ rev (replicate (length (takeWhile (\<lambda>c. c = CHR ''/'') (rev s))) (CHR ''/''))"
    using a [of "rev s"] by (metis rev_append)
  then have 1: "\<exists>n. s = TrimRight s ''/'' @ replicate n (CHR ''/'')"
    by (auto simp: TrimRight_def)
  have 2: "TrimRight s ''/'' = [] \<or> last (TrimRight s ''/'') \<noteq> CHR ''/''"
    using hd_dropWhile [of "\<lambda>c. c = CHR ''/''" "rev s"]
    by (auto simp: TrimRight_def last_rev)
  from 1 2 show ?thesis by blast
qed

text \<open>
  C6. Whenever \<open>ValidateKey\<close> (of the OpenAI channel, and of the Anthropic channel, which
  builds the URL by the same lines) gets as far as a request, the request is
  a POST to the string of the final URL, which is the upstream URL with its path replaced by
  the upstream path without its trailing slashes followed by the path of the validation
  endpoint, and its query replaced by the query of the validation endpoint: scheme and host
  are the upstream's, and a sub-path of the upstream and the query of the endpoint are both
  kept. The trimmed path is the upstream path less a run of slashes at its end, and does not
  end in a slash.
\<close>

theorem ValidateKey_probe_URL:
  assumes "OpenAI_probe E ch apiKey grp = Inr req \<or> Anthropic_probe E ch apiKey grp = Inr req"
  shows "\<exists>upstreamURL endpointURL finalURL n.
           getUpstreamURL ch = Some upstreamURL \<and>
           url_Parse E (ValidationEndpoint ch) = Inr endpointURL \<and>
           finalURL = upstreamURL\<lparr>Path := TrimRight (Path upstreamURL) ''/'' @ Path endpointURL,
                                  RawQuery := RawQuery endpointURL\<rparr> \<and>
           Method req = ''POST'' \<and>
           RequestURL req = URL_String E finalURL \<and>
           Scheme finalURL = Scheme upstreamURL \<and>
           Host finalURL = Host upstreamURL \<and>
           Path finalURL = TrimRight (Path upstreamURL) ''/'' @ Path endpointURL \<and>
           RawQuery finalURL = RawQuery endpointURL \<and>
           Path upstreamURL = TrimRight (Path upstreamURL) ''/'' @ replicate n (CHR ''/'') \<and>
           (TrimRight (Path upstreamURL) ''/'' = [] \<or>
            last (TrimRight (Path upstreamURL) ''/'') \<noteq> CHR ''/'')"
proof -
  from assms obtain upstreamURL endpointURL where
    u: "getUpstreamURL ch = Some upstreamURL" and
    e: "url_Parse E (ValidationEndpoint ch) = Inr endpointURL" and
    m: "Method req = ''POST''" and
    r: "RequestURL req = URL_String E (upstreamURL\<lparr>Path := TrimRight (Path upstreamURL) ''/'' @ Path endpointURL,
                                  RawQuery := RawQuery endpointURL\<rparr>)"
    by (auto simp: OpenAI_probe_def Anthropic_probe_def NewRequest_def Header_Set_def apply_group_rules_def Let_def
        split: option.splits sum.splits if_splits)
  obtain n where n: "Path upstreamURL = TrimRight (Path upstreamURL) ''/'' @ replicate n (CHR ''/'')"
    and l: "TrimRight (Path upstreamURL) ''/'' = [] \<or> last (TrimRight (Path upstreamURL) ''/'') \<noteq> CHR ''/''"
    using TrimRight_slash [of "Path upstreamURL"] by blast
  show ?thesis
    using u e m r n l by (intro exI [of _ upstreamURL] exI [of _ endpointURL] exI [of _ "upstreamURL\<lparr>Path := TrimRight (Path upstreamURL) ''/'' @ Path endpointURL, RawQuery := RawQuery endpointURL\<rparr>"] exI [of _ n]) simp
qed

text \<open>The theorem at the upstream \<open>https://api.example.com/proxy/\<close> and the endpoint
  \<open>/v1/chat/completions?api-version=1\<close>.\<close>

theorem ValidateKey_probe_URL_witness:
  "OpenAI_probe example_Env (example_Channel (status_client 204 [])) example_Key example_Group
     = Inr example_probe \<and>
   Path (hd (Upstreams (example_Channel (status_client 204 [])))) = ''/proxy/'' \<and>
   ValidationEndpoint (example_Channel (status_client 204 [])) = ''/v1/chat/completions?api-version=1'' \<and>
   RequestURL example_probe = ''https://api.example.com/proxy/v1/chat/completions?api-version=1''"
  using example_probes(1) [of "status_client 204 []"]
    ValidateKey_probe_URL [OF disjI1, OF example_probes(1) [of "status_client 204 []"]]
  by (simp add: example_Channel_def example_URL_def example_probe_def)

section \<open>Properties of the model service\<close>

lemma set_columns_refresh: "set_columns (refresh_updates capability) r = refreshed capability r"
  by (simp add: set_columns_def refresh_updates_def refreshed_def no_updates_def split: option.splits)

lemma kept_refl: "kept r r"
  by (simp add: kept_def)

lemma kept_refreshed: "kept r (refreshed capability r)"
  by (simp add: kept_def refreshed_def)

lemma extends_refl: "extends rs rs"
  by (simp add: extends_def kept_refl)

lemma extends_trans: "extends a b \<Longrightarrow> extends b c \<Longrightarrow> extends a c"
  by (auto simp: extends_def kept_def)

lemma db_step_rows: "db_step st = (f, st1) \<Longrightarrow> rows st1 = rows st \<and> provider_calls st1 = provider_calls st"
  by (auto simp: db_step_def split: list.splits)

lemma least_ID_mem: "least_ID m rs \<in> set (m # rs)"
  by (induction rs arbitrary: m) (auto split: if_splits)

lemma First_rows: "First c st = (res, st1) \<Longrightarrow> rows st1 = rows st \<and> provider_calls st1 = provider_calls st"
  by (auto simp: First_def Let_def split: prod.splits list.splits if_splits dest: db_step_rows)

lemma First_found:
  assumes "First c st = (Inr existing, st1)"
  shows "existing \<in> set (rows st) \<and> c existing"
proof -
  from assms obtain r rs where f: "filter c (rows st) = r # rs" and e: "existing = least_ID r rs"
    by (auto simp: First_def Let_def split: prod.splits list.splits if_splits dest: db_step_rows)
  have "existing \<in> set (filter c (rows st))"
    unfolding f e by (rule least_ID_mem)
  then show ?thesis by simp
qed

lemma Create_rows:
  "Create capability st = (e, st1) \<Longrightarrow>
     provider_calls st1 = provider_calls st \<and>
     (rows st1 = rows st \<or> (e = None \<and> (\<exists>c'. rows st1 = rows st @ [c'])))"
  by (auto simp: Create_def Let_def split: prod.splits if_splits dest: db_step_rows)

lemma Updates_rows:
  "Updates pk u st = (e, st1) \<Longrightarrow>
     provider_calls st1 = provider_calls st \<and>
     (rows st1 = rows st \<or>
      (e = None \<and> rows st1 = map (\<lambda>r. if ID r = pk then set_columns u r else r) (rows st)))"
  by (auto simp: Updates_def Let_def split: prod.splits if_splits dest: db_step_rows)

lemma store_capability_rows:
  assumes "store_capability capability st = (e, st1)"
  shows "rows st1 = rows st \<or> (\<exists>c'. rows st1 = rows st @ [c']) \<or>
         (\<exists>existing \<in> set (rows st).
            GroupID existing = GroupID capability \<and> ModelID existing = ModelID capability \<and>
            rows st1 = map (\<lambda>r. if ID r = ID existing then refreshed capability r else r) (rows st))"
proof (cases "First (\<lambda>r. GroupID r = GroupID capability \<and> ModelID r = ModelID capability) st")
  case (Pair res st0)
  note F = First_rows [OF Pair]
  show ?thesis
  proof (cases res)
    case (Inl err)
    with assms Pair F show ?thesis
      by (auto simp: store_capability_def split: if_splits dest: Create_rows)
  next
    case (Inr existing)
    with Pair have ex: "existing \<in> set (rows st)" "GroupID existing = GroupID capability"
      "ModelID existing = ModelID capability"
      using First_found [of _ st existing st0] by auto
    from assms Pair Inr have "Updates (ID existing) (refresh_updates capability) st0 = (e, st1)"
      by (simp add: store_capability_def)
    from Updates_rows [OF this] F ex show ?thesis
      by (auto simp: set_columns_refresh)
  qed
qed


lemma store_capability_extends:
  assumes "store_capability capability st = (e, st1)"
  shows "extends (rows st) (rows st1)"
  using store_capability_rows [OF assms]
  by (auto simp: extends_def kept_refl kept_refreshed nth_append)

lemma store_all_extends:
  "store_all capabilities st = (e, st1) \<Longrightarrow> extends (rows st) (rows st1)"
proof (induction capabilities arbitrary: st)
  case Nil
  then show ?case by (simp add: extends_refl)
next
  case (Cons capability capabilities)
  obtain e0 st0 where s: "store_capability capability st = (e0, st0)"
    by (cases "store_capability capability st")
  have a: "extends (rows st) (rows st0)" by (rule store_capability_extends [OF s])
  show ?case
  proof (cases e0)
    case None
    with Cons.prems s have "store_all capabilities st0 = (e, st1)" by simp
    from Cons.IH [OF this] a show ?thesis by (rule extends_trans [rotated])
  next
    case (Some err)
    with Cons.prems s have "st1 = st0" by simp
    with a show ?thesis by simp
  qed
qed

lemma Transaction_extends:
  assumes "\<And>e st1. body st = (e, st1) \<Longrightarrow> extends (rows st) (rows st1)"
    and "Transaction body st = (e, st')"
  shows "extends (rows st) (rows st')"
  using assms by (auto simp: Transaction_def extends_refl split: prod.splits option.splits)

lemma FetchAndStoreModels_extends:
  assumes "FetchAndStoreModels s grp apiKey st = (e, st')"
  shows "extends (rows st) (rows st')"
proof -
  have t: "extends (rows st0) (rows st1)"
    if "Transaction (store_all capabilities) st0 = (e, st1)" for capabilities st0 st1 e
    using Transaction_extends [of "store_all capabilities" st0 e st1] store_all_extends that
    by blast
  from assms show ?thesis
    by (auto simp: FetchAndStoreModels_def Let_def extends_refl
        split: sum.splits if_splits dest!: t)
qed

lemma extends_nth:
  "extends rs rs' \<Longrightarrow> i < length rs \<Longrightarrow>
     ID (rs' ! i) = ID (rs ! i) \<and> GroupID (rs' ! i) = GroupID (rs ! i) \<and>
     ModelID (rs' ! i) = ModelID (rs ! i) \<and>
     CustomCapabilities (rs' ! i) = CustomCapabilities (rs ! i)"
  by (simp add: extends_def kept_def)

lemma store_capability_nth:
  assumes "store_capability capability st0 = (e0, st1)" and "i < length (rows st0)"
  shows "rows st1 ! i = rows st0 ! i \<or>
         (rows st1 ! i = refreshed capability (rows st0 ! i) \<and>
          (\<exists>existing \<in> set (rows st0).
             GroupID existing = GroupID capability \<and> ModelID existing = ModelID capability \<and>
             ID (rows st0 ! i) = ID existing))"
proof -
  consider "rows st1 = rows st0" | c' where "rows st1 = rows st0 @ [c']"
    | existing where "existing \<in> set (rows st0)" "GroupID existing = GroupID capability"
        "ModelID existing = ModelID capability"
        "rows st1 = map (\<lambda>r. if ID r = ID existing then refreshed capability r else r) (rows st0)"
    using store_capability_rows [OF assms(1)] by blast
  then show ?thesis
  proof cases
    case 1
    then show ?thesis by simp
  next
    case 2
    with assms(2) show ?thesis by (simp add: nth_append)
  next
    case 3
    show ?thesis
    proof (cases "ID (rows st0 ! i) = ID existing")
      case True
      with 3 assms(2) show ?thesis by auto
    next
      case False
      with 3 assms(2) show ?thesis by simp
    qed
  qed
qed

lemma patch_custom_nth:
  assumes "UpdateModelCapability pk (no_updates\<lparr>custom_capabilities := Some v\<rparr>) st0 = (None, st)"
    and "i < length (rows st0)" and "ID (rows st0 ! i) = pk"
  shows "length (rows st) = length (rows st0) \<and> CustomCapabilities (rows st ! i) = v"
  using assms
  by (auto simp: UpdateModelCapability_def Updates_def Let_def set_columns_def no_updates_def
      split: prod.splits if_splits dest: db_step_rows)

lemma db_step_healthy: "faults st = [] \<Longrightarrow> db_step st = (False, st)"
  by (simp add: db_step_def)

lemma store_capability_existing:
  assumes "faults st0 = []"
    and "\<exists>r \<in> set (rows st0). GroupID r = GroupID capability \<and> ModelID r = ModelID capability"
  shows "\<exists>existing \<in> set (rows st0).
           GroupID existing = GroupID capability \<and> ModelID existing = ModelID capability \<and>
           store_capability capability st0 =
             (None, st0\<lparr>rows := map (\<lambda>r. if ID r = ID existing then refreshed capability r else r)
                                  (rows st0)\<rparr>)"
proof -
  let ?c = "\<lambda>r. GroupID r = GroupID capability \<and> ModelID r = ModelID capability"
  from assms(2) have "filter ?c (rows st0) \<noteq> []"
    by (simp add: filter_empty_conv)
  then obtain r rs where f: "filter ?c (rows st0) = r # rs"
    by (cases "filter ?c (rows st0)") auto
  let ?e = "least_ID r rs"
  have F: "First ?c st0 = (Inr ?e, st0)"
    using f by (simp add: First_def db_step_healthy [OF assms(1)])
  from First_found [OF F] have e: "?e \<in> set (rows st0)" "GroupID ?e = GroupID capability"
    "ModelID ?e = ModelID capability"
    by simp_all
  have "store_capability capability st0 =
          (None, st0\<lparr>rows := map (\<lambda>r. if ID r = ID ?e then refreshed capability r else r) (rows st0)\<rparr>)"
    by (simp add: store_capability_def F Updates_def db_step_healthy [OF assms(1)]
        set_columns_refresh)
  with e show ?thesis by blast
qed

text \<open>
  C4. For every run of \<open>FetchAndStoreModels\<close>, whatever it returns, every row of the table
  is still there, in place, with its primary key, group, model id and custom capabilities
  unchanged. Each step of the upsert leaves a row as it was or makes it the row
  \<open>refreshed\<close> from the fetched capability, and the latter only for a row that has the
  primary key of a row matching the capability's group and model id: only the name, the
  three \<open>supports\<close> flags, \<open>is_auto_fetched\<close>, \<open>last_fetched_at\<close> and the token limits
  that the capability has are written. Without a database fault, a capability that matches
  a row is stored by that update and by nothing else. So a value of \<open>custom_capabilities\<close>
  set by a patch is still the row's value after the next fetch.
\<close>

theorem FetchAndStoreModels_frame:
  assumes "FetchAndStoreModels s grp apiKey st = (e, st')"
  shows "length (rows st) \<le> length (rows st') \<and>
         (\<forall>i < length (rows st).
            ID (rows st' ! i) = ID (rows st ! i) \<and>
            GroupID (rows st' ! i) = GroupID (rows st ! i) \<and>
            ModelID (rows st' ! i) = ModelID (rows st ! i) \<and>
            CustomCapabilities (rows st' ! i) = CustomCapabilities (rows st ! i)) \<and>
         (\<forall>capability st0 e0 st1 i.
            store_capability capability st0 = (e0, st1) \<and> i < length (rows st0) \<longrightarrow>
            rows st1 ! i = rows st0 ! i \<or>
            (rows st1 ! i = refreshed capability (rows st0 ! i) \<and>
             (\<exists>existing \<in> set (rows st0).
                GroupID existing = GroupID capability \<and> ModelID existing = ModelID capability \<and>
                ID (rows st0 ! i) = ID existing))) \<and>
         (\<forall>capability st0.
            faults st0 = [] \<and>
            (\<exists>r \<in> set (rows st0). GroupID r = GroupID capability \<and> ModelID r = ModelID capability) \<longrightarrow>
            (\<exists>existing \<in> set (rows st0).
               GroupID existing = GroupID capability \<and> ModelID existing = ModelID capability \<and>
               store_capability capability st0 =
                 (None, st0\<lparr>rows := map (\<lambda>r. if ID r = ID existing then refreshed capability r
                                                else r) (rows st0)\<rparr>))) \<and>
         (\<forall>pk v st0 i.
            UpdateModelCapability pk (no_updates\<lparr>custom_capabilities := Some v\<rparr>) st0 = (None, st) \<and>
            i < length (rows st0) \<and> ID (rows st0 ! i) = pk \<longrightarrow>
            CustomCapabilities (rows st' ! i) = v)"
proof -
  note ext = FetchAndStoreModels_extends [OF assms]
  have 1: "length (rows st) \<le> length (rows st')"
    using ext by (simp add: extends_def)
  have 2: "\<forall>i < length (rows st).
            ID (rows st' ! i) = ID (rows st ! i) \<and>
            GroupID (rows st' ! i) = GroupID (rows st ! i) \<and>
            ModelID (rows st' ! i) = ModelID (rows st ! i) \<and>
            CustomCapabilities (rows st' ! i) = CustomCapabilities (rows st ! i)"
    using extends_nth [OF ext] by blast
  have 3: "\<forall>capability st0 e0 st1 i.
            store_capability capability st0 = (e0, st1) \<and> i < length (rows st0) \<longrightarrow>
            rows st1 ! i = rows st0 ! i \<or>
            (rows st1 ! i = refreshed capability (rows st0 ! i) \<and>
             (\<exists>existing \<in> set (rows st0).
                GroupID existing = GroupID capability \<and> ModelID existing = ModelID capability \<and>
                ID (rows st0 ! i) = ID existing))"
    using store_capability_nth by blast
  have 4: "\<forall>capability st0.
            faults st0 = [] \<and>
            (\<exists>r \<in> set (rows st0). GroupID r = GroupID capability \<and> ModelID r = ModelID capability) \<longrightarrow>
            (\<exists>existing \<in> set (rows st0).
               GroupID existing = GroupID capability \<and> ModelID existing = ModelID capability \<and>
               store_capability capability st0 =
                 (None, st0\<lparr>rows := map (\<lambda>r. if ID r = ID existing then refreshed capability r
                                                else r) (rows st0)\<rparr>))"
    using store_capability_existing by blast
  have 5: "CustomCapabilities (rows st' ! i) = v"
    if "UpdateModelCapability pk (no_updates\<lparr>custom_capabilities := Some v\<rparr>) st0 = (None, st)"
      and "i < length (rows st0)" and "ID (rows st0 ! i) = pk" for pk v st0 i
  proof -
    from patch_custom_nth [OF that] have "i < length (rows st)" "CustomCapabilities (rows st ! i) = v"
      using that(2) by simp_all
    with extends_nth [OF ext, of i] show ?thesis by simp
  qed
  from 5 have 6: "\<forall>pk v st0 i.
            UpdateModelCapability pk (no_updates\<lparr>custom_capabilities := Some v\<rparr>) st0 = (None, st) \<and>
            i < length (rows st0) \<and> ID (rows st0 ! i) = pk \<longrightarrow>
            CustomCapabilities (rows st' ! i) = v"
    by blast
  show ?thesis
    apply (intro conjI)
        apply (rule 1)
       apply (rule 2)
      apply (rule 3)
     apply (rule 4)
    apply (rule 6)
    done
qed

lemma example_patch:
  "UpdateModelCapability 1 (no_updates\<lparr>custom_capabilities := Some example_custom\<rparr>)
     (example_State [example_stored])
   = (None, example_State [example_stored\<lparr>CustomCapabilities := example_custom\<rparr>])"
  by code_simp

lemma example_refresh:
  "FetchAndStoreModels example_Service example_Group example_Key
     (example_State [example_stored\<lparr>CustomCapabilities := example_custom\<rparr>])
   = (None, (example_State example_refreshed)\<lparr>provider_calls := 1\<rparr>)"
  by code_simp

text \<open>The theorem at a row whose custom capabilities are patched and which is then matched by
  a fetch of three models.\<close>

theorem FetchAndStoreModels_frame_witness:
  "UpdateModelCapability 1 (no_updates\<lparr>custom_capabilities := Some example_custom\<rparr>)
     (example_State [example_stored])
   = (None, example_State [example_stored\<lparr>CustomCapabilities := example_custom\<rparr>]) \<and>
   FetchAndStoreModels example_Service example_Group example_Key
     (example_State [example_stored\<lparr>CustomCapabilities := example_custom\<rparr>])
   = (None, (example_State example_refreshed)\<lparr>provider_calls := 1\<rparr>) \<and>
   CustomCapabilities (example_refreshed ! 0) = example_custom \<and>
   ModelName (example_refreshed ! 0) = ''gpt-4-vision-preview'' \<and>
   MaxTokens (example_refreshed ! 0) = Some 4096 \<and>
   length example_refreshed = 3"
proof -
  have r: "rows (example_State rs) = rs" "rows ((example_State rs)\<lparr>provider_calls := 1\<rparr>) = rs" for rs
    by (simp_all add: example_State_def)
  have i: "ID example_stored = 1"
    by (simp add: example_stored_def ModelCapabilities_zero_def)
  have m: "ModelName (example_refreshed ! 0) = ''gpt-4-vision-preview''"
    "MaxTokens (example_refreshed ! 0) = Some 4096" "length example_refreshed = 3"
    by (simp_all add: example_refreshed_def example_rows_def ModelCapabilities_zero_def)
  show ?thesis
    using example_patch example_refresh r i m
      FetchAndStoreModels_frame [OF example_refresh]
    by simp
qed














section \<open>Properties of the metrics\<close>

lemma Register_already: "Register c registry = Inl AlreadyRegisteredError \<longleftrightarrow> known c registry"
  by (auto simp: Register_def known_def)

lemma Register_added:
  "Register c registry = Inr registry' \<longleftrightarrow>
     registry' = registry @ [c] \<and> (\<forall>d \<in> set registry. fqName d \<noteq> fqName c)"
  by (auto simp: Register_def)

lemma known_append: "known c registry \<Longrightarrow> \<forall>d \<in> set registry. fqName d \<noteq> fqName c' \<Longrightarrow>
  known c (registry @ [c'])"
  by (auto simp: known_def)

lemma known_last: "\<forall>d \<in> set registry. fqName d \<noteq> fqName c \<Longrightarrow> known c (registry @ [c])"
  by (auto simp: known_def)

lemma register_each_known:
  "register_each ms registry = (None, registry') \<Longrightarrow> known c registry \<Longrightarrow> known c registry'"
proof (induction ms arbitrary: registry)
  case Nil
  then show ?case by simp
next
  case (Cons m ms)
  show ?case
  proof (cases "Register m registry")
    case (Inl e)
    with Cons.prems(1) have "e = AlreadyRegisteredError" "register_each ms registry = (None, registry')"
      by (cases e; simp)+
    with Cons.IH Cons.prems(2) show ?thesis by blast
  next
    case (Inr r)
    then have r: "r = registry @ [m]" "\<forall>d \<in> set registry. fqName d \<noteq> fqName m"
      by (simp_all add: Register_added)
    from Inr Cons.prems(1) have "register_each ms r = (None, registry')" by simp
    moreover have "known c r" using Cons.prems(2) r by (simp add: known_append)
    ultimately show ?thesis using Cons.IH by blast
  qed
qed

lemma register_each_all_known:
  "register_each ms registry = (None, registry') \<Longrightarrow> \<forall>m \<in> set ms. known m registry'"
proof (induction ms arbitrary: registry)
  case Nil
  then show ?case by simp
next
  case (Cons m ms)
  show ?case
  proof (cases "Register m registry")
    case (Inl e)
    with Cons.prems have e: "e = AlreadyRegisteredError" and
      r: "register_each ms registry = (None, registry')"
      by (cases e; simp)+
    from Inl e have "known m registry" by (simp add: Register_already)
    with r have "known m registry'" by (rule register_each_known)
    with Cons.IH [OF r] show ?thesis by simp
  next
    case (Inr r)
    then have "known m r" by (simp add: Register_added known_last)
    moreover from Inr Cons.prems have e: "register_each ms r = (None, registry')" by simp
    ultimately have "known m registry'" using register_each_known by blast
    with Cons.IH [OF e] show ?thesis by simp
  qed
qed

lemma register_each_nothing_new:
  "\<forall>m \<in> set ms. known m registry \<Longrightarrow> register_each ms registry = (None, registry)"
proof (induction ms)
  case Nil
  then show ?case by simp
next
  case (Cons m ms)
  then have "Register m registry = Inl AlreadyRegisteredError"
    by (simp add: Register_already)
  with Cons show ?case by simp
qed

lemma register_each_fresh:
  "distinct (map fqName ms) \<Longrightarrow> \<forall>d \<in> set registry. fqName d \<notin> fqName ` set ms \<Longrightarrow>
   register_each ms registry = (None, registry @ ms)"
proof (induction ms arbitrary: registry)
  case Nil
  then show ?case by simp
next
  case (Cons m ms)
  from Cons.prems have "Register m registry = Inr (registry @ [m])"
    by (auto simp: Register_added)
  moreover have "register_each ms (registry @ [m]) = (None, (registry @ [m]) @ ms)"
    using Cons.prems by (intro Cons.IH) auto
  ultimately show ?case by simp
qed

lemma distinct_metrics: "distinct (map fqName metrics)"
  by code_simp

text \<open>
  C7. A call of \<open>Init\<close> that succeeds leaves a registry on which \<open>Init\<close> succeeds again and
  which that second call leaves as it is. On a registry that holds none of the ten names
  (the registry of a process that has not called \<open>Init\<close>) the first call succeeds and adds
  the ten descriptors, so two calls succeed and the registered series after the second are
  those after the first.
\<close>

theorem Init_twice:
  "(Init registry = (None, registry') \<longrightarrow> Init registry' = (None, registry')) \<and>
   ((\<forall>d \<in> set registry. fqName d \<notin> fqName ` set metrics) \<longrightarrow>
      Init registry = (None, registry @ metrics) \<and>
      Init (registry @ metrics) = (None, registry @ metrics))"
proof -
  have 1: "Init r' = (None, r')" if "Init r = (None, r')" for r r'
    using that register_each_all_known [of metrics r r'] register_each_nothing_new [of metrics r']
    by (simp add: Init_def)
  have 2: "Init registry = (None, registry @ metrics)"
    if "\<forall>d \<in> set registry. fqName d \<notin> fqName ` set metrics"
    using that register_each_fresh [OF distinct_metrics] by (simp add: Init_def)
  from 1 2 show ?thesis by blast
qed

text \<open>The theorem at the empty registry.\<close>

theorem Init_twice_witness:
  "Init [] = (None, metrics) \<and> Init metrics = (None, metrics) \<and> length metrics = 10"
proof -
  have "length metrics = 10" by (simp add: metrics_def)
  then show ?thesis
    using Init_twice [of "[]" metrics] by simp
qed

text \<open>The earlier revision of \<open>Init\<close>, which the current one replaces, panics on the second
  call.\<close>

lemma Init_MustRegister_twice:
  "Init_MustRegister [] = Inr metrics \<and> Init_MustRegister metrics = Inl AlreadyRegisteredError"
  by code_simp

text \<open>
  C8. For every call of \<open>RecordHTTPRequest\<close>, the histogram of request sizes receives one
  observation if the request size is greater than zero and none otherwise, and the histogram
  of response sizes receives one observation if the response size is greater than zero and
  none otherwise; the counter and the duration histogram receive one sample in every call.
\<close>

theorem RecordHTTPRequest_sizes:
  "httpRequestSize (RecordHTTPRequest method endpoint status duration reqSize respSize m) =
     (if sint reqSize > 0 then httpRequestSize m @ [([method, endpoint], reqSize)]
      else httpRequestSize m) \<and>
   httpResponseSize (RecordHTTPRequest method endpoint status duration reqSize respSize m) =
     (if sint respSize > 0 then httpResponseSize m @ [([method, endpoint], respSize)]
      else httpResponseSize m) \<and>
   (length (httpRequestSize (RecordHTTPRequest method endpoint status duration reqSize respSize m))
      = length (httpRequestSize m) + (if sint reqSize > 0 then 1 else 0)) \<and>
   (length (httpResponseSize (RecordHTTPRequest method endpoint status duration reqSize respSize m))
      = length (httpResponseSize m) + (if sint respSize > 0 then 1 else 0)) \<and>
   length (httpRequestsTotal (RecordHTTPRequest method endpoint status duration reqSize respSize m))
      = length (httpRequestsTotal m) + 1 \<and>
   length (httpRequestDuration (RecordHTTPRequest method endpoint status duration reqSize respSize m))
      = length (httpRequestDuration m) + 1"
  by (simp add: RecordHTTPRequest_def Let_def)

text \<open>The theorem at a request of size zero, and at a response of size \<open>-1\<close>.\<close>

theorem RecordHTTPRequest_sizes_witness:
  "httpRequestSize (RecordHTTPRequest ''GET'' ''/metrics'' 200 0 0 1432 no_samples) = [] \<and>
   httpResponseSize (RecordHTTPRequest ''GET'' ''/metrics'' 200 0 0 1432 no_samples)
     = [([''GET'', ''/metrics''], 1432)] \<and>
   httpRequestSize (RecordHTTPRequest ''POST'' ''/models/fetch'' 200 0 57 (- 1) no_samples)
     = [([''POST'', ''/models/fetch''], 57)] \<and>
   httpResponseSize (RecordHTTPRequest ''POST'' ''/models/fetch'' 200 0 57 (- 1) no_samples) = []"
proof -
  have s: "sint (0 :: int64) = 0" "sint (1432 :: int64) = 1432" "sint (57 :: int64) = 57"
    "sint (- 1 :: int64) = - 1"
    by simp_all
  have n: "httpRequestSize no_samples = []" "httpResponseSize no_samples = []"
    by (simp_all add: no_samples_def)
  show ?thesis
    using s n
      RecordHTTPRequest_sizes [of "''GET''" "''/metrics''" 200 0 0 1432 no_samples]
      RecordHTTPRequest_sizes [of "''POST''" "''/models/fetch''" 200 0 57 "- 1" no_samples]
    by simp
qed

section \<open>Properties of the playground handler\<close>

text \<open>
  C9. For every playground chat request that is bound, finds its group with an upstream and
  selects an active key whose decryption fails, the handler responds with status 500 and
  leaves the server as it was: the table of keys is unchanged, and the selected key is
  still in it with the status active.
\<close>

theorem PlaygroundChat_decryption_failure:
  assumes "bound = Inr req"
    and "find_group s (GroupName req) = Some grp"
    and "group_Upstreams grp \<noteq> []"
    and "random_active_key s rnd (group_ID grp) = Some apiKey"
    and "Decrypt s (KeyValue apiKey) = Inl err"
  shows "PlaygroundChat E rnd bound s = (response_Error 500 ''Failed to decrypt API key'', s) \<and>
         reply_status (fst (PlaygroundChat E rnd bound s)) = 500 \<and>
         api_keys (snd (PlaygroundChat E rnd bound s)) = api_keys s \<and>
         apiKey \<in> set (api_keys (snd (PlaygroundChat E rnd bound s))) \<and>
         Status apiKey = KeyStatusActive"
proof -
  have k: "apiKey \<in> set (api_keys s) \<and> Status apiKey = KeyStatusActive"
  proof -
    let ?active = "filter (\<lambda>k. key_GroupID k = group_ID grp \<and> Status k = KeyStatusActive) (api_keys s)"
    from assms(4) have ne: "?active \<noteq> []" and a: "apiKey = ?active ! (rnd mod length ?active)"
      by (auto simp: random_active_key_def Let_def split: if_splits)
    from ne have "rnd mod length ?active < length ?active" by simp
    then have "apiKey \<in> set ?active" unfolding a by (rule nth_mem)
    then show ?thesis by simp
  qed
  have p: "PlaygroundChat E rnd bound s = (response_Error 500 ''Failed to decrypt API key'', s)"
    using assms by (auto simp: PlaygroundChat_def Let_def split: list.splits)
  show ?thesis
    using k by (simp add: p reply_status_def)
qed

text \<open>The theorem at a server whose decryption always fails.\<close>

theorem PlaygroundChat_decryption_failure_witness:
  "PlaygroundChat example_Env 5 (Inr example_chat) (example_Server ''openai'' (\<lambda>c. Inl ''cipher: message authentication failed''))
     = (response_Error 500 ''Failed to decrypt API key'',
        example_Server ''openai'' (\<lambda>c. Inl ''cipher: message authentication failed'')) \<and>
   map Status (api_keys (example_Server ''openai'' (\<lambda>c. Inl ''cipher: message authentication failed'')))
     = [KeyStatusActive]"
proof -
  let ?s = "example_Server ''openai'' (\<lambda>c. Inl ''cipher: message authentication failed'')"
  have g: "find_group ?s (GroupName example_chat) = Some (example_Group\<lparr>ChannelType := ''openai''\<rparr>)"
    by (simp add: find_group_def example_Server_def example_chat_def example_Group_def)
  have u: "group_Upstreams (example_Group\<lparr>ChannelType := ''openai''\<rparr>) \<noteq> []"
    by (simp add: example_Group_def)
  have k: "random_active_key ?s 5 (group_ID (example_Group\<lparr>ChannelType := ''openai''\<rparr>))
             = Some (example_Key\<lparr>KeyValue := ''ciphertext''\<rparr>)"
    by (simp add: random_active_key_def example_Server_def example_Group_def example_Key_def)
  have d: "Decrypt ?s (KeyValue (example_Key\<lparr>KeyValue := ''ciphertext''\<rparr>))
             = Inl ''cipher: message authentication failed''"
    by (simp add: example_Server_def)
  have m: "map Status (api_keys ?s) = [KeyStatusActive]"
    by (simp add: example_Server_def example_Key_def)
  show ?thesis
    using m PlaygroundChat_decryption_failure [OF refl g u k d, of example_Env] by simp
qed

lemma callOpenAI_request_shape:
  assumes "callOpenAI_request E baseURL apiKey req = Inr httpReq"
  shows "Method httpReq = ''POST'' \<and>
         RequestURL httpReq = baseURL @ ''/v1/chat/completions'' \<and>
         Header_Get httpReq ''Authorization'' = ''Bearer '' @ apiKey \<and>
         Header_Get httpReq ''Content-Type'' = ''application/json''"
  using assms
  by (auto simp: callOpenAI_request_def NewRequest_def Header_Set_def Header_Get_def Let_def
      split: sum.splits)

text \<open>
  C10. For every playground chat request that resolves to a group whose channel type is none
  of \<open>openai\<close>, \<open>gemini\<close> and \<open>anthropic\<close> (and whose key is decrypted), the response is the
  one built from the result of \<open>callOpenAI\<close>: there is no error for an unknown channel type.
  The request \<open>callOpenAI\<close> sends is a POST to the upstream URL followed by
  \<open>/v1/chat/completions\<close> with the header \<open>Authorization: Bearer\<close> and the key.
\<close>

theorem PlaygroundChat_other_channel_type:
  assumes "bound = Inr req"
    and "find_group s (GroupName req) = Some grp"
    and "group_Upstreams grp = upstream # others"
    and "random_active_key s rnd (group_ID grp) = Some apiKey"
    and "Decrypt s (KeyValue apiKey) = Inr decryptedKey"
    and "ChannelType grp \<notin> {''openai'', ''gemini'', ''anthropic''}"
  shows "PlaygroundChat E rnd bound s =
           (case callOpenAI E s (upstream_URL upstream) decryptedKey req of
              Inl apiErr \<Rightarrow> (response_Error 500 (''API call failed: '' @ apiErr), s)
            | Inr upstreamResp \<Rightarrow>
                (response_Success \<lparr>Content = upstreamResp, response_Model = Model req\<rparr>, s)) \<and>
         (\<forall>httpReq. callOpenAI_request E (upstream_URL upstream) decryptedKey req = Inr httpReq \<longrightarrow>
            Method httpReq = ''POST'' \<and>
            RequestURL httpReq = upstream_URL upstream @ ''/v1/chat/completions'' \<and>
            Header_Get httpReq ''Authorization'' = ''Bearer '' @ decryptedKey \<and>
            callOpenAI E s (upstream_URL upstream) decryptedKey req
              = read_reply E OpenAI_content (Do s httpReq))"
proof -
  have 1: "PlaygroundChat E rnd bound s =
           (case callOpenAI E s (upstream_URL upstream) decryptedKey req of
              Inl apiErr \<Rightarrow> (response_Error 500 (''API call failed: '' @ apiErr), s)
            | Inr upstreamResp \<Rightarrow>
                (response_Success \<lparr>Content = upstreamResp, response_Model = Model req\<rparr>, s))"
    using assms by (simp add: PlaygroundChat_def Let_def split: sum.splits)
  have 2: "Method httpReq = ''POST'' \<and>
            RequestURL httpReq = upstream_URL upstream @ ''/v1/chat/completions'' \<and>
            Header_Get httpReq ''Authorization'' = ''Bearer '' @ decryptedKey \<and>
            callOpenAI E s (upstream_URL upstream) decryptedKey req
              = read_reply E OpenAI_content (Do s httpReq)"
    if "callOpenAI_request E (upstream_URL upstream) decryptedKey req = Inr httpReq" for httpReq
    using callOpenAI_request_shape [OF that] that by (simp add: callOpenAI_def)
  from 1 2 show ?thesis by blast
qed

text \<open>The theorem at a group of channel type \<open>azure\<close>.\<close>

theorem PlaygroundChat_other_channel_type_witness:
  "PlaygroundChat example_Env 5 (Inr example_chat) (example_Server ''azure'' (\<lambda>c. Inr ''sk-XYZ''))
     = (response_Success \<lparr>Content = ''hello'', response_Model = ''gpt-4o-mini''\<rparr>,
        example_Server ''azure'' (\<lambda>c. Inr ''sk-XYZ''))"
proof -
  let ?s = "example_Server ''azure'' (\<lambda>c. Inr ''sk-XYZ'')"
  let ?g = "example_Group\<lparr>ChannelType := ''azure''\<rparr>"
  have g: "find_group ?s (GroupName example_chat) = Some ?g"
    by (simp add: find_group_def example_Server_def example_chat_def example_Group_def)
  have u: "group_Upstreams ?g = [\<lparr>upstream_URL = ''https://api.example.com/proxy/'', Weight = 1\<rparr>]"
    by (simp add: example_Group_def)
  have k: "random_active_key ?s 5 (group_ID ?g) = Some (example_Key\<lparr>KeyValue := ''ciphertext''\<rparr>)"
    by (simp add: random_active_key_def example_Server_def example_Group_def example_Key_def)
  have d: "Decrypt ?s (KeyValue (example_Key\<lparr>KeyValue := ''ciphertext''\<rparr>)) = Inr ''sk-XYZ''"
    by (simp add: example_Server_def)
  have t: "ChannelType ?g \<notin> {''openai'', ''gemini'', ''anthropic''}"
    by simp
  have c: "callOpenAI example_Env ?s ''https://api.example.com/proxy/'' ''sk-XYZ'' example_chat
             = Inr ''hello''"
    by code_simp
  show ?thesis
    using c PlaygroundChat_other_channel_type [OF refl g u k d t, of example_Env]
    by (simp add: example_chat_def)
qed

end
